theory Spec2Isabelle
  imports Complex_Main "HOL-Library.Sublist"
begin

section \<open>Python values, errors and configuration\<close>

text \<open>
  The program is Python. Floats are modelled as exact reals (rounding is outside the
  model; where the code tests for the non-finite floats, the argument is a \<open>pyfloat\<close>),
  unbounded ints as \<open>int\<close>, exceptions as values of \<open>py_error\<close>. A function that may
  raise returns \<open>py_error + 'a\<close>.
\<close>

datatype py_error =
    AttributeError | TypeError | KeyError | IndexError
  | ZeroDivisionError | ValueError | JSONDecodeError

text \<open>
  Values as \<open>json.loads\<close> produces them, plus a pandas timestamp (a valid time, in
  milliseconds).
\<close>

datatype pyval =
    PNone
  | PBool bool
  | PNum real
  | PStr string
  | PList "pyval list"
  | PDict "(string \<times> pyval) list"
  | PTime int

text \<open>The dataclass \<open>Config\<close> of crypto_com_momo_bot.py (the fields the core reads).\<close>

record config =
  execution_mode :: string
  large_order_threshold_usdt :: real
  throttle_window :: int
  throttle_threshold_pct :: real
  daily_drawdown_pct :: real
  total_budget_usdt :: real
  risk_per_trade_pct :: real
  stop_loss_pct :: real
  take_profit_pct :: real
  ema_len :: int
  zscore_len :: int
  zscore_entry :: real
  rsi_oversold :: real
  rsi_overbought :: real
  symbol_ccxt :: string
  cooldown_sec :: int

text \<open>
  A signal is the dict a strategy returns: \<open>{"action": .., "price": .., "reason": ..}\<close>.
  The live router also passes the boolean that \<open>on_tick_update\<close> returns where a signal
  is expected, so a value in signal position is \<open>None\<close>, a bool or such a dict.
\<close>

record signal =
  action :: string
  price :: "real option"
  reason :: "string option"

datatype sigval = SNone | SBool bool | SDict signal

text \<open>\<open>collections.deque(maxlen=m).append(x)\<close>: the oldest element leaves a full deque.\<close>

definition deque_append :: "nat \<Rightarrow> 'a list \<Rightarrow> 'a \<Rightarrow> 'a list" where
  "deque_append m xs x = (let ys = xs @ [x] in drop (length ys - m) ys)"

section \<open>trading/risk_manager.py\<close>

text \<open>
  The attributes of a \<open>RiskManager\<close>. \<open>approve_trade\<close> reads \<open>self.log\<close>, an attribute
  that \<open>__init__\<close> never assigns; \<open>has_log\<close> says whether the object has it.
  The cached sentiment label of the analyzer is passed to \<open>approve_trade\<close> as
  \<open>current_sentiment\<close>, the value of \<open>self.ai_analyzer.get_current_sentiment()\<close>.
\<close>

record risk_manager =
  rm_cfg :: config
  starting_budget :: real
  trading_paused_drawdown :: bool
  trade_history :: "nat list"
  trading_paused_throttle :: bool
  has_log :: bool

definition RiskManager_init :: "config \<Rightarrow> py_error + risk_manager" where
  "RiskManager_init cfg =
     (if throttle_window cfg < 0 then Inl ValueError
      else Inr \<lparr> rm_cfg = cfg,
                 starting_budget = total_budget_usdt cfg,
                 trading_paused_drawdown = False,
                 trade_history = [],
                 trading_paused_throttle = False,
                 has_log = False \<rparr>)"

definition win_rate_of :: "nat list \<Rightarrow> real" where
  "win_rate_of h = real (sum_list h) / real (length h)"

definition approve_trade ::
  "risk_manager \<Rightarrow> string \<Rightarrow> sigval \<Rightarrow> real \<Rightarrow> py_error + (bool \<times> risk_manager)" where
  "approve_trade self current_sentiment sg current_budget =
     (if \<not> has_log self then Inl AttributeError
      else case sg of
        SNone \<Rightarrow> Inl AttributeError
      | SBool b \<Rightarrow> Inl AttributeError
      | SDict d \<Rightarrow>
          if action d = ''enter_long'' \<and> current_sentiment = ''Bearish'' then Inr (False, self)
          else if starting_budget self = 0 then Inl ZeroDivisionError
          else
            let drawdown_pct = (current_budget - starting_budget self) / starting_budget self in
            if drawdown_pct < - daily_drawdown_pct (rm_cfg self)
            then Inr (False, self\<lparr>trading_paused_drawdown := True\<rparr>)
            else if trading_paused_throttle self then Inr (False, self)
            else if int (length (trade_history self)) = throttle_window (rm_cfg self) then
              (if length (trade_history self) = 0 then Inl ZeroDivisionError
               else if win_rate_of (trade_history self) < throttle_threshold_pct (rm_cfg self)
               then Inr (False, self\<lparr>trading_paused_throttle := True\<rparr>)
               else Inr (True, self))
            else Inr (True, self))"

text \<open>
  \<open>update_trade_history\<close> returns the manager after the call and the exception, if one
  was raised: the append happens before the division that can fail.
\<close>

definition update_trade_history :: "risk_manager \<Rightarrow> real \<Rightarrow> py_error option \<times> risk_manager" where
  "update_trade_history self pnl =
     (let h = deque_append (nat (throttle_window (rm_cfg self))) (trade_history self)
                (if pnl > 0 then 1 else 0);
          self1 = self\<lparr>trade_history := h\<rparr>
      in if trading_paused_throttle self1 then
           (if length h = 0 then (Some ZeroDivisionError, self1)
            else if win_rate_of h \<ge> throttle_threshold_pct (rm_cfg self1)
            then (None, self1\<lparr>trading_paused_throttle := False\<rparr>)
            else (None, self1))
         else (None, self1))"

text \<open>
  A session of the risk gate: any sequence of the two calls. A call of \<open>approve_trade\<close>
  that raises leaves the object as it was (every raise precedes every assignment).
\<close>

datatype rm_call = Approve string sigval real | Update real

fun rm_step :: "risk_manager \<Rightarrow> rm_call \<Rightarrow> risk_manager" where
  "rm_step self (Approve sent sg b) =
     (case approve_trade self sent sg b of Inl e \<Rightarrow> self | Inr (ok, self') \<Rightarrow> self')"
| "rm_step self (Update pnl) = snd (update_trade_history self pnl)"

definition rm_run :: "risk_manager \<Rightarrow> rm_call list \<Rightarrow> risk_manager" where
  "rm_run self calls = foldl rm_step self calls"

section \<open>Dynamic typing: the operations the router and the strategies apply to parsed JSON\<close>

definition dict_get :: "(string \<times> pyval) list \<Rightarrow> string \<Rightarrow> pyval \<Rightarrow> pyval" where
  "dict_get d k dflt = (case map_of d k of None \<Rightarrow> dflt | Some v \<Rightarrow> v)"

text \<open>\<open>v.get(k, dflt)\<close>: only a dict has the method.\<close>

definition py_get :: "pyval \<Rightarrow> string \<Rightarrow> pyval \<Rightarrow> py_error + pyval" where
  "py_get v k dflt = (case v of PDict d \<Rightarrow> Inr (dict_get d k dflt) | _ \<Rightarrow> Inl AttributeError)"

fun py_truthy :: "pyval \<Rightarrow> bool" where
  "py_truthy PNone = False"
| "py_truthy (PBool b) = b"
| "py_truthy (PNum x) = (x \<noteq> 0)"
| "py_truthy (PStr s) = (s \<noteq> [])"
| "py_truthy (PList xs) = (xs \<noteq> [])"
| "py_truthy (PDict d) = (d \<noteq> [])"
| "py_truthy (PTime t) = True"

text \<open>\<open>k in v\<close> for a string \<open>k\<close>: key of a dict, element of a list, substring of a string.\<close>

fun py_in :: "string \<Rightarrow> pyval \<Rightarrow> py_error + bool" where
  "py_in k (PDict d) = Inr (map_of d k \<noteq> None)"
| "py_in k (PList xs) = Inr (List.member xs (PStr k))"
| "py_in k (PStr s) = Inr (sublist k s)"
| "py_in k v = Inl TypeError"

text \<open>\<open>v[k]\<close> for a string \<open>k\<close>.\<close>

fun py_item :: "pyval \<Rightarrow> string \<Rightarrow> py_error + pyval" where
  "py_item (PDict d) k = (case map_of d k of None \<Rightarrow> Inl KeyError | Some v \<Rightarrow> Inr v)"
| "py_item v k = Inl TypeError"

text \<open>\<open>v[0]\<close>; the keys of a parsed JSON object are strings, so \<open>0\<close> is never one.\<close>

fun py_index0 :: "pyval \<Rightarrow> py_error + pyval" where
  "py_index0 (PList []) = Inl IndexError"
| "py_index0 (PList (x # xs)) = Inr x"
| "py_index0 (PStr []) = Inl IndexError"
| "py_index0 (PStr (c # cs)) = Inr (PStr [c])"
| "py_index0 (PDict d) = Inl KeyError"
| "py_index0 v = Inl TypeError"

text \<open>\<open>for x in v\<close>: the elements the loop visits.\<close>

fun py_iter :: "pyval \<Rightarrow> py_error + pyval list" where
  "py_iter (PList xs) = Inr xs"
| "py_iter (PStr s) = Inr (map (\<lambda>c. PStr [c]) s)"
| "py_iter (PDict d) = Inr (map (\<lambda>kv. PStr (fst kv)) d)"
| "py_iter v = Inl TypeError"

text \<open>
  \<open>float(v)\<close>. Reading a number out of a string is the built-in's work and is a
  parameter \<open>pf\<close> here (\<open>None\<close>: the string is no number, \<open>ValueError\<close>).
\<close>

fun py_float :: "(string \<Rightarrow> real option) \<Rightarrow> pyval \<Rightarrow> py_error + real" where
  "py_float pf (PNum x) = Inr x"
| "py_float pf (PBool b) = Inr (if b then 1 else 0)"
| "py_float pf (PStr s) = (case pf s of None \<Rightarrow> Inl ValueError | Some x \<Rightarrow> Inr x)"
| "py_float pf v = Inl TypeError"

text \<open>\<open>s.startswith(p)\<close>: only a string has the method.\<close>

fun py_startswith :: "pyval \<Rightarrow> string \<Rightarrow> py_error + bool" where
  "py_startswith (PStr s) p = Inr (prefix p s)"
| "py_startswith v p = Inl AttributeError"

text \<open>
  Comparison of two values. Numbers and booleans compare as numbers, strings by code
  point, lists lexicographically from the first pair of unequal elements (\<open>==\<close> is
  \<open>py_eq\<close>), timestamps by time; any other pair raises TypeError.
\<close>

fun num_of :: "pyval \<Rightarrow> real option" where
  "num_of (PNum x) = Some x"
| "num_of (PBool b) = Some (if b then 1 else 0)"
| "num_of v = None"

fun py_eq :: "pyval \<Rightarrow> pyval \<Rightarrow> bool"
  and py_eq_list :: "pyval list \<Rightarrow> pyval list \<Rightarrow> bool"
  and py_sub_dict :: "(string \<times> pyval) list \<Rightarrow> (string \<times> pyval) list \<Rightarrow> bool" where
  "py_eq (PList xs) (PList ys) = py_eq_list xs ys"
| "py_eq (PDict d) (PDict e) = (length d = length e \<and> py_sub_dict d e)"
| "py_eq (PStr s) (PStr t) = (s = t)"
| "py_eq (PTime s) (PTime t) = (s = t)"
| "py_eq PNone PNone = True"
| "py_eq a b = (case num_of a of None \<Rightarrow> False
                | Some x \<Rightarrow> (case num_of b of None \<Rightarrow> False | Some y \<Rightarrow> x = y))"
| "py_eq_list [] [] = True"
| "py_eq_list (x # xs) (y # ys) = (py_eq x y \<and> py_eq_list xs ys)"
| "py_eq_list xs ys = False"
| "py_sub_dict [] e = True"
| "py_sub_dict (kv # d) e =
     ((case map_of e (fst kv) of None \<Rightarrow> False | Some w \<Rightarrow> py_eq (snd kv) w) \<and> py_sub_dict d e)"

fun py_lt :: "pyval \<Rightarrow> pyval \<Rightarrow> py_error + bool"
  and py_lt_list :: "pyval list \<Rightarrow> pyval list \<Rightarrow> py_error + bool" where
  "py_lt (PList xs) (PList ys) = py_lt_list xs ys"
| "py_lt (PStr s) (PStr t) = Inr (lexordp (\<lambda>a b. (of_char a :: nat) < of_char b) s t)"
| "py_lt (PTime s) (PTime t) = Inr (s < t)"
| "py_lt a b = (case num_of a of None \<Rightarrow> Inl TypeError
                | Some x \<Rightarrow> (case num_of b of None \<Rightarrow> Inl TypeError | Some y \<Rightarrow> Inr (x < y)))"
| "py_lt_list [] [] = Inr False"
| "py_lt_list [] (y # ys) = Inr True"
| "py_lt_list (x # xs) [] = Inr False"
| "py_lt_list (x # xs) (y # ys) = (if py_eq x y then py_lt_list xs ys else py_lt x y)"

text \<open>\<open>max(a, b)\<close> is \<open>b\<close> if \<open>b > a\<close>, else \<open>a\<close>; \<open>min(a, b)\<close> is \<open>b\<close> if \<open>b < a\<close>, else \<open>a\<close>.\<close>

definition py_max :: "pyval \<Rightarrow> pyval \<Rightarrow> py_error + pyval" where
  "py_max a b = (case py_lt a b of Inl e \<Rightarrow> Inl e | Inr l \<Rightarrow> Inr (if l then b else a))"

definition py_min :: "pyval \<Rightarrow> pyval \<Rightarrow> py_error + pyval" where
  "py_min a b = (case py_lt b a of Inl e \<Rightarrow> Inl e | Inr l \<Rightarrow> Inr (if l then b else a))"

text \<open>\<open>str.lower\<close> on ASCII letters (other bytes are left as they are).\<close>

definition lower_char :: "char \<Rightarrow> char" where
  "lower_char c =
     (case map_of (zip ''ABCDEFGHIJKLMNOPQRSTUVWXYZ'' ''abcdefghijklmnopqrstuvwxyz'') c of
        None \<Rightarrow> c | Some l \<Rightarrow> l)"

definition lower :: "string \<Rightarrow> string" where
  "lower s = map lower_char s"

section \<open>strategies/momentum_strategy.py\<close>

text \<open>The position dict \<open>{"side": .., "qty": .., "entry": ..}\<close> that the engine opens.\<close>

record position =
  side :: string
  qty :: real
  entry :: real

record momentum =
  ms_cfg :: config
  last_signal_ts :: real
  prices :: "real list"
  ema_state :: "real option"
  ms_pos :: "position option"
  tick_count :: int

definition MomentumStrategy_init :: "config \<Rightarrow> py_error + momentum" where
  "MomentumStrategy_init cfg =
     (if max (ema_len cfg) (zscore_len cfg) * 3 < 0 then Inl ValueError
      else Inr \<lparr> ms_cfg = cfg, last_signal_ts = 0, prices = [], ema_state = None,
                 ms_pos = None, tick_count = 0 \<rparr>)"

definition ema :: "real option \<Rightarrow> real \<Rightarrow> real \<Rightarrow> real" where
  "ema prev x alpha = (case prev of Some p \<Rightarrow> alpha * x + (1 - alpha) * p | None \<Rightarrow> x)"

text \<open>
  \<open>zscore\<close>: \<open>None\<close> stands for the NaN that numpy returns for a window of one value
  (sample deviation with \<open>ddof=1\<close>); an empty window raises at \<open>arr[-1]\<close>.
\<close>

definition zscore :: "real list \<Rightarrow> int \<Rightarrow> py_error + real option" where
  "zscore series window =
     (if int (length series) < window then Inr (Some 0)
      else
        let arr = (if window > 0 then drop (length series - nat window) series
                   else drop (nat (- window)) series);
            n = length arr
        in if n = 0 then Inl IndexError
           else if n = 1 then Inr None
           else
             let mu = sum_list arr / real n;
                 sd0 = sqrt (sum_list (map (\<lambda>x. (x - mu)\<^sup>2) arr) / real (n - 1));
                 sd = (if sd0 < 1 / 10 ^ 12 then 1 else sd0)
             in Inr (Some ((last arr - mu) / sd)))"

definition cooldown :: "momentum \<Rightarrow> real \<Rightarrow> bool" where
  "cooldown self now = (now - last_signal_ts self < real_of_int (cooldown_sec (ms_cfg self)))"

text \<open>
  The price argument of \<open>on_price\<close> is a float that may be non-finite:
  \<open>math.isfinite\<close> and the comparison \<open>px <= 0\<close> on it (a comparison with NaN is false).
\<close>

datatype pyfloat = Fin real | PosInf | NegInf | NaN

fun isfinite :: "pyfloat \<Rightarrow> bool" where
  "isfinite (Fin x) = True"
| "isfinite PosInf = False"
| "isfinite NegInf = False"
| "isfinite NaN = False"

fun le_zero :: "pyfloat \<Rightarrow> bool" where
  "le_zero (Fin x) = (x \<le> 0)"
| "le_zero PosInf = False"
| "le_zero NegInf = True"
| "le_zero NaN = False"

text \<open>
  \<open>on_price\<close>; \<open>now\<close> is the clock reading \<open>time.time()\<close>. The result is the object
  after the call with what the call returned or raised. \<open>on_valid_price\<close> is the body
  behind the first guard, where the price is a positive finite number.
\<close>

definition on_valid_price :: "momentum \<Rightarrow> real \<Rightarrow> real \<Rightarrow> (py_error + signal option) \<times> momentum" where
  "on_valid_price self now px =
     (if ema_len (ms_cfg self) + 1 = 0 then (Inl ZeroDivisionError, self)
      else
        let alpha = 2 / real_of_int (ema_len (ms_cfg self) + 1);
            e = ema (ema_state self) px alpha;
            ps = deque_append (nat (max (ema_len (ms_cfg self)) (zscore_len (ms_cfg self)) * 3))
                   (prices self) px;
            self1 = self\<lparr>ema_state := Some e, prices := ps\<rparr>;
            exit_logic =
              (case ms_pos self1 of
                 None \<Rightarrow> (Inr None, self1)
               | Some pos \<Rightarrow>
                   let tp = entry pos * (1 + take_profit_pct (ms_cfg self1));
                       sl = entry pos * (1 + stop_loss_pct (ms_cfg self1))
                   in if px \<ge> tp
                      then (Inr (Some \<lparr>action = ''exit'', price = Some px, reason = Some ''tp''\<rparr>), self1)
                      else if px \<le> sl
                      then (Inr (Some \<lparr>action = ''exit'', price = Some px, reason = Some ''sl''\<rparr>), self1)
                      else (Inr None, self1))
        in if ms_pos self1 = None \<and> int (length ps) \<ge> zscore_len (ms_cfg self1) then
             (let momentum_v = px - (if e = 0 then px else e) in
              case zscore ps (zscore_len (ms_cfg self1)) of
                Inl err \<Rightarrow> (Inl err, self1)
              | Inr zs \<Rightarrow>
                  if momentum_v > 0 \<and> (case zs of None \<Rightarrow> False | Some z \<Rightarrow> z > zscore_entry (ms_cfg self1))
                     \<and> \<not> cooldown self1 now
                  then (Inr (Some \<lparr>action = ''enter_long'', price = Some px, reason = None\<rparr>),
                        self1\<lparr>last_signal_ts := now\<rparr>)
                  else exit_logic)
           else exit_logic)"

definition on_price :: "momentum \<Rightarrow> real \<Rightarrow> pyfloat option \<Rightarrow> (py_error + signal option) \<times> momentum" where
  "on_price self now px_opt =
     (case px_opt of
        None \<Rightarrow> (Inr None, self)
      | Some px \<Rightarrow>
          if le_zero px \<or> \<not> isfinite px then (Inr None, self)
          else (case px of Fin x \<Rightarrow> on_valid_price self now x | _ \<Rightarrow> (Inr None, self)))"

section \<open>strategies/scalping_strategy.py\<close>

text \<open>
  A candle is the dict \<open>{'open', 'high', 'low', 'close', 'volume'}\<close>; the frame
  \<open>self.candles\<close> is the list of its rows, each with its index label (the minute).
  The cells hold the prices as they arrive, so the strategy object that the engine and
  the router hold has cells of type \<open>pyval\<close>. \<open>generate_signal\<close> is modelled on frames
  whose cells are numbers (cells of type \<open>real\<close>): what the indicator library does with
  other cells is not the repository's code.
  The attribute \<open>pos\<close> is not assigned by \<open>__init__\<close>: the engine reads it with
  \<open>getattr(self.strat, 'pos', None)\<close> and assigns it, so \<open>None\<close> is absent or \<open>None\<close>.
\<close>

record 'a candle =
  c_open :: 'a
  c_high :: 'a
  c_low :: 'a
  c_close :: 'a
  c_volume :: 'a

record 'a scalping =
  ss_cfg :: config
  candles :: "(int \<times> 'a candle) list"
  current_candle :: "'a candle option"
  last_candle_timestamp :: "int option"
  latest_bid :: "real option"
  latest_ask :: "real option"
  ss_pos :: "position option"

definition ScalpingStrategy_init :: "config \<Rightarrow> 'a scalping" where
  "ScalpingStrategy_init cfg =
     \<lparr> ss_cfg = cfg, candles = [], current_candle = None, last_candle_timestamp = None,
       latest_bid = None, latest_ask = None, ss_pos = None \<rparr>"

text \<open>\<open>timestamp.floor('1min')\<close> on milliseconds.\<close>

definition floor_1min :: "int \<Rightarrow> int" where
  "floor_1min t = t - t mod 60000"

text \<open>\<open>df.loc[k] = row\<close>: overwrite the row labelled \<open>k\<close>, or append it.\<close>

definition loc_set :: "(int \<times> 'a candle) list \<Rightarrow> int \<Rightarrow> 'a candle \<Rightarrow> (int \<times> 'a candle) list" where
  "loc_set df k row =
     (if map_of df k \<noteq> None then map (\<lambda>kv. if fst kv = k then (k, row) else kv) df
      else df @ [(k, row)])"

text \<open>\<open>df.drop(df.index[0], inplace=True)\<close>: the rows with the first label go.\<close>

definition drop_first_label :: "(int \<times> 'a candle) list \<Rightarrow> (int \<times> 'a candle) list" where
  "drop_first_label df = (case df of [] \<Rightarrow> [] | kv # rest \<Rightarrow> filter (\<lambda>r. fst r \<noteq> fst kv) df)"

text \<open>
  \<open>on_tick_update\<close>. The price is stored as it is; \<open>max\<close> and \<open>min\<close> raise for values
  that do not compare, after the new candle and its minute have been assigned, and
  \<open>min\<close> after the new high has been stored. The frame row is written from
  \<open>self.current_candle\<close>, which is a candle whenever \<open>self.last_candle_timestamp\<close> is set
  (the two are assigned together).
\<close>

definition on_tick_update ::
  "pyval scalping \<Rightarrow> (string \<times> pyval) list \<Rightarrow> (py_error + bool) \<times> pyval scalping" where
  "on_tick_update self tick_data =
     (let pricev = dict_get tick_data ''price'' PNone;
          timestamp = dict_get tick_data ''timestamp'' PNone
      in if pricev = PNone \<or> timestamp = PNone then (Inr False, self)
         else case timestamp of
           PTime t \<Rightarrow>
             (let current_candle_ts = floor_1min t;
                  roll = (case last_candle_timestamp self of
                            None \<Rightarrow> False | Some l \<Rightarrow> l < current_candle_ts);
                  self1 =
                    (case last_candle_timestamp self of
                       None \<Rightarrow> self
                     | Some l \<Rightarrow>
                         if l < current_candle_ts then
                           let df = (case current_candle self of
                                       None \<Rightarrow> candles self
                                     | Some c \<Rightarrow> loc_set (candles self) l c);
                               df' = (if length df > 100 then drop_first_label df else df)
                           in self\<lparr>candles := df', current_candle := None\<rparr>
                         else self);
                  fresh = \<lparr>c_open = pricev, c_high = pricev, c_low = pricev, c_close = pricev,
                           c_volume = PNum 0\<rparr>;
                  self2 =
                    (case current_candle self1 of
                       None \<Rightarrow> self1\<lparr>current_candle := Some fresh,
                                      last_candle_timestamp := Some current_candle_ts\<rparr>
                     | Some c \<Rightarrow> self1);
                  c = (case current_candle self1 of None \<Rightarrow> fresh | Some c \<Rightarrow> c)
              in case py_max (c_high c) pricev of
                   Inl e \<Rightarrow> (Inl e, self2)
                 | Inr hi \<Rightarrow>
                     (case py_min (c_low c) pricev of
                        Inl e \<Rightarrow> (Inl e, self2\<lparr>current_candle := Some (c\<lparr>c_high := hi\<rparr>)\<rparr>)
                      | Inr lo \<Rightarrow>
                          (Inr roll,
                           self2\<lparr>current_candle :=
                                   Some (c\<lparr>c_high := hi, c_low := lo, c_close := pricev\<rparr>)\<rparr>)))
         | _ \<Rightarrow> (Inl AttributeError, self))"

text \<open>
  \<open>on_order_book_update\<close> on the parsed payload. The first assignment stays when the
  second half raises.
\<close>

definition top_of_book :: "(string \<Rightarrow> real option) \<Rightarrow> pyval \<Rightarrow> string \<Rightarrow> py_error + real option" where
  "top_of_book pf order_book k =
     (case py_in k order_book of
        Inl e \<Rightarrow> Inl e
      | Inr False \<Rightarrow> Inr None
      | Inr True \<Rightarrow>
          (case py_item order_book k of
             Inl e \<Rightarrow> Inl e
           | Inr levels \<Rightarrow>
               if \<not> py_truthy levels then Inr None
               else (case py_index0 levels of
                       Inl e \<Rightarrow> Inl e
                     | Inr level \<Rightarrow>
                         (case py_index0 level of
                            Inl e \<Rightarrow> Inl e
                          | Inr v \<Rightarrow> (case py_float pf v of Inl e \<Rightarrow> Inl e | Inr x \<Rightarrow> Inr (Some x))))))"

definition on_order_book_update ::
  "(string \<Rightarrow> real option) \<Rightarrow> 'a scalping \<Rightarrow> pyval \<Rightarrow> py_error option \<times> 'a scalping" where
  "on_order_book_update pf self order_book =
     (case top_of_book pf order_book ''bids'' of
        Inl e \<Rightarrow> (Some e, self)
      | Inr b \<Rightarrow>
          (let self1 = (case b of None \<Rightarrow> self | Some x \<Rightarrow> self\<lparr>latest_bid := Some x\<rparr>) in
           (case top_of_book pf order_book ''asks'' of
              Inl e \<Rightarrow> (Some e, self1)
            | Inr a \<Rightarrow> (None, (case a of None \<Rightarrow> self1 | Some x \<Rightarrow> self1\<lparr>latest_ask := Some x\<rparr>)))))"

text \<open>
  \<open>generate_signal\<close>. The indicator columns are computed by the library pandas_ta,
  which is not part of the repository: \<open>ema9 cs i\<close>, \<open>ema21 cs i\<close> and \<open>rsi14 cs i\<close>
  are the values of the columns EMA_9, EMA_21 and RSI_14 at row \<open>i\<close> for the close
  series \<open>cs\<close>, \<open>None\<close> for NaN. A comparison with NaN is false.
\<close>

record indicators =
  ema9 :: "real list \<Rightarrow> nat \<Rightarrow> real option"
  ema21 :: "real list \<Rightarrow> nat \<Rightarrow> real option"
  rsi14 :: "real list \<Rightarrow> nat \<Rightarrow> real option"

definition nan_lt :: "real option \<Rightarrow> real option \<Rightarrow> bool" where
  "nan_lt a b = (case a of None \<Rightarrow> False | Some x \<Rightarrow> (case b of None \<Rightarrow> False | Some y \<Rightarrow> x < y))"

text \<open>The column \<open>self.candles['close']\<close>.\<close>

definition closes :: "real scalping \<Rightarrow> real list" where
  "closes self = map (\<lambda>kv. c_close (snd kv)) (candles self)"

definition generate_signal :: "indicators \<Rightarrow> real scalping \<Rightarrow> signal option" where
  "generate_signal ta self =
     (if length (candles self) < 22 then None
      else
        let cs = closes self;
            n = length cs;
            last_close = cs ! (n - 1);
            last_ema9 = ema9 ta cs (n - 1);
            last_ema21 = ema21 ta cs (n - 1);
            last_rsi = rsi14 ta cs (n - 1);
            prev_ema9 = ema9 ta cs (n - 2);
            prev_ema21 = ema21 ta cs (n - 2);
            ema_buy_signal = (nan_lt prev_ema9 prev_ema21 \<and> nan_lt last_ema21 last_ema9);
            rsi_buy_signal = nan_lt last_rsi (Some (rsi_oversold (ss_cfg self)));
            ema_sell_signal = (nan_lt prev_ema21 prev_ema9 \<and> nan_lt last_ema9 last_ema21);
            rsi_sell_signal = nan_lt (Some (rsi_overbought (ss_cfg self))) last_rsi
        in if ema_buy_signal \<or> rsi_buy_signal
           then Some \<lparr>action = ''enter_long'', price = Some last_close, reason = None\<rparr>
           else if ema_sell_signal \<or> rsi_sell_signal
           then Some \<lparr>action = ''exit'', price = Some last_close, reason = None\<rparr>
           else None)"

section \<open>The strategy object held by the engine and the router\<close>

datatype strategy = Momentum momentum | Scalping "pyval scalping"

text \<open>\<open>getattr(self.strat, 'pos', None)\<close> and the assignment \<open>self.strat.pos = p\<close>.\<close>

fun get_pos :: "strategy \<Rightarrow> position option" where
  "get_pos (Momentum m) = ms_pos m"
| "get_pos (Scalping s) = ss_pos s"

fun set_pos :: "strategy \<Rightarrow> position option \<Rightarrow> strategy" where
  "set_pos (Momentum m) p = Momentum (m\<lparr>ms_pos := p\<rparr>)"
| "set_pos (Scalping s) p = Scalping (s\<lparr>ss_pos := p\<rparr>)"

text \<open>
  \<open>getattr(self.strat, 'latest_ask', dflt)\<close>: the default is returned only when the object
  has no such attribute. A Momentum strategy has none; a Scalping strategy always has
  one, \<open>None\<close> until an order book with asks has been seen. Likewise for \<open>latest_bid\<close>.
\<close>

fun getattr_latest_ask :: "strategy \<Rightarrow> real option \<Rightarrow> real option" where
  "getattr_latest_ask (Momentum m) dflt = dflt"
| "getattr_latest_ask (Scalping s) dflt = latest_ask s"

fun getattr_latest_bid :: "strategy \<Rightarrow> real option \<Rightarrow> real option" where
  "getattr_latest_bid (Momentum m) dflt = dflt"
| "getattr_latest_bid (Scalping s) dflt = latest_bid s"

section \<open>trading/execution_engine.py\<close>

text \<open>
  The engine holds the strategy and the risk manager (the same objects the router
  holds) and its budget. \<open>trade_log\<close> lists the calls of \<open>log_trade_func\<close>, one row per
  call with the arguments passed (\<open>pnl_usdt\<close> is absent on entries).
\<close>

record trade_row =
  tr_symbol :: string
  tr_action :: string
  tr_side :: string
  tr_price :: real
  tr_qty :: real
  tr_reason :: string
  tr_pnl :: "real option"

record execution_engine =
  ee_cfg :: config
  strat :: strategy
  risk_manager :: risk_manager
  budget :: real
  trade_log :: "trade_row list"

definition ExecutionEngine_init :: "config \<Rightarrow> strategy \<Rightarrow> risk_manager \<Rightarrow> execution_engine" where
  "ExecutionEngine_init cfg st rm =
     \<lparr> ee_cfg = cfg, strat = st, risk_manager = rm, budget = total_budget_usdt cfg,
       trade_log = [] \<rparr>"

text \<open>\<open>_order_size\<close>.\<close>

definition order_size :: "execution_engine \<Rightarrow> real option \<Rightarrow> real" where
  "order_size self p =
     (case p of
        None \<Rightarrow> 0
      | Some pr \<Rightarrow>
          if pr \<le> 0 then 0
          else let notional_to_risk = budget self * risk_per_trade_pct (ee_cfg self)
               in max (notional_to_risk / pr) 0)"

definition route_reason :: "config \<Rightarrow> real \<Rightarrow> string" where
  "route_reason cfg notional_value =
     (let mode = lower (execution_mode cfg) in
      if (mode = ''auto'' \<and> notional_value > large_order_threshold_usdt cfg) \<or> mode = ''twap''
      then ''twap_entry'' else ''smart_limit_entry'')"

definition act_exit :: "execution_engine \<Rightarrow> signal \<Rightarrow> py_error option \<times> execution_engine" where
  "act_exit self decision =
     (case get_pos (strat self) of
        None \<Rightarrow> (None, self)
      | Some pos \<Rightarrow>
          (case getattr_latest_ask (strat self) (price decision) of
             None \<Rightarrow> (None, self)
           | Some exit_price \<Rightarrow>
               if entry pos \<le> 0 \<or> qty pos \<le> 0
               then (None, self\<lparr>strat := set_pos (strat self) None\<rparr>)
               else
                 (let pnl = (exit_price - entry pos) * qty pos;
                      self1 = self\<lparr>budget := budget self + pnl\<rparr>;
                      upd = update_trade_history (risk_manager self1) pnl;
                      self2 = self1\<lparr>risk_manager := snd upd\<rparr>
                  in (case fst upd of
                        Some e \<Rightarrow> (Some e, self2)
                      | None \<Rightarrow>
                          (None,
                           self2\<lparr>trade_log := trade_log self2 @
                                     [\<lparr>tr_symbol = symbol_ccxt (ee_cfg self2), tr_action = ''EXIT'',
                                       tr_side = side pos, tr_price = exit_price, tr_qty = qty pos,
                                       tr_reason = (case reason decision of None \<Rightarrow> [] | Some r \<Rightarrow> r),
                                       tr_pnl = Some pnl\<rparr>],
                                  strat := set_pos (strat self2) None\<rparr>)))))"

definition act_enter :: "execution_engine \<Rightarrow> signal \<Rightarrow> py_error option \<times> execution_engine" where
  "act_enter self decision =
     (case get_pos (strat self) of
        Some pos \<Rightarrow> (None, self)
      | None \<Rightarrow>
          (case getattr_latest_bid (strat self) (price decision) of
             None \<Rightarrow> (None, self)
           | Some pr \<Rightarrow>
               (let q = order_size self (Some pr);
                    notional_value = q * pr;
                    rsn = route_reason (ee_cfg self) notional_value;
                    entry_price = pr
                in if q \<le> 0 then (None, self)
                   else (None,
                         self\<lparr>trade_log := trade_log self @
                                  [\<lparr>tr_symbol = symbol_ccxt (ee_cfg self), tr_action = ''ENTER'',
                                    tr_side = ''LONG'', tr_price = entry_price, tr_qty = q,
                                    tr_reason = rsn, tr_pnl = None\<rparr>],
                               strat := set_pos (strat self)
                                          (Some \<lparr>side = ''LONG'', qty = q, entry = entry_price\<rparr>)\<rparr>))))"

text \<open>
  \<open>act\<close>: \<open>None\<close> and \<open>False\<close> are falsy and end the call; \<open>True["action"]\<close> raises.
\<close>

definition act :: "execution_engine \<Rightarrow> sigval \<Rightarrow> py_error option \<times> execution_engine" where
  "act self decision =
     (case decision of
        SNone \<Rightarrow> (None, self)
      | SBool b \<Rightarrow> (if b then (Some TypeError, self) else (None, self))
      | SDict d \<Rightarrow>
          if action d = ''exit'' then act_exit self d
          else if action d = ''enter_long'' then act_enter self d
          else (None, self))"

section \<open>trading/ai_analyzer.py: the cached sentiment label\<close>

text \<open>
  The analyzer is an external collaborator; its cache is modelled. \<open>__init__\<close> assigns
  \<open>sentiment\<close>, \<open>last_analysis_time\<close> and \<open>cache_duration\<close> after the client has been
  built, inside the \<open>try\<close>: when building the client raises, the object has none of the
  three (\<open>None\<close> below) and \<open>self.client\<close> is \<open>None\<close>. \<open>world\<close> is what a call of
  \<open>refresh_sentiment\<close> reads from outside: the clock and the stripped reply of the
  language model (\<open>None\<close> when the request fails).
\<close>

record analyzer =
  has_client :: bool
  sentiment :: "string option"
  last_analysis_time :: "real option"
  cache_duration :: "real option"

record world =
  clock :: real
  ai_response :: "string option"

definition AI_Analyzer_init :: "bool \<Rightarrow> analyzer" where
  "AI_Analyzer_init client_built =
     (if client_built
      then \<lparr> has_client = True, sentiment = Some ''Neutral'', last_analysis_time = Some 0,
             cache_duration = Some (60 * 15) \<rparr>
      else \<lparr> has_client = False, sentiment = None, last_analysis_time = None,
             cache_duration = None \<rparr>)"

definition get_current_sentiment :: "analyzer \<Rightarrow> py_error + string" where
  "get_current_sentiment self =
     (case sentiment self of None \<Rightarrow> Inl AttributeError | Some s \<Rightarrow> Inr s)"

definition get_sentiment_from_ai :: "analyzer \<Rightarrow> string option \<Rightarrow> string" where
  "get_sentiment_from_ai self r =
     (if \<not> has_client self then ''Neutral''
      else case r of
             None \<Rightarrow> ''Neutral''
           | Some s \<Rightarrow> if List.member [''Bullish'', ''Bearish'', ''Neutral''] s then s else ''Neutral'')"

definition refresh_sentiment :: "world \<Rightarrow> analyzer \<Rightarrow> py_error + analyzer" where
  "refresh_sentiment w self =
     (case last_analysis_time self of
        None \<Rightarrow> Inl AttributeError
      | Some l \<Rightarrow>
          (case cache_duration self of
             None \<Rightarrow> Inl AttributeError
           | Some cd \<Rightarrow>
               if clock w - l < cd then Inr self
               else Inr (self\<lparr>sentiment := Some (get_sentiment_from_ai self (ai_response w)),
                              last_analysis_time := Some (clock w)\<rparr>)))"

section \<open>data/websocket_manager.py\<close>

text \<open>
  The manager holds the engine (and through it the strategy and the risk manager) and
  the analyzer. \<open>trace\<close> is an observation log that the source does not have: the model
  appends an event where the source sends a message or calls a collaborator, in order.
\<close>

datatype event =
    RefreshSentiment
  | WsSend pyval
  | OnTickUpdate "(string \<times> pyval) list"
  | OnOrderBookUpdate pyval
  | ApproveTrade sigval real
  | Act sigval

record ws_manager =
  engine :: execution_engine
  ai_analyzer :: analyzer
  trace :: "event list"

definition emit :: "ws_manager \<Rightarrow> event \<Rightarrow> ws_manager" where
  "emit m e = m\<lparr>trace := trace m @ [e]\<rparr>"

definition with_strat :: "ws_manager \<Rightarrow> strategy \<Rightarrow> ws_manager" where
  "with_strat m st = m\<lparr>engine := (engine m)\<lparr>strat := st\<rparr>\<rparr>"

definition with_risk :: "ws_manager \<Rightarrow> risk_manager \<Rightarrow> ws_manager" where
  "with_risk m rm = m\<lparr>engine := (engine m)\<lparr>risk_manager := rm\<rparr>\<rparr>"

text \<open>
  The body of \<open>if signal:\<close> in the ticker loop, for the value \<open>signal\<close> that
  \<open>on_tick_update\<close> returned. The first line of \<open>approve_trade\<close> reads the label from
  the analyzer, which raises when the analyzer has none.
\<close>

definition trade_on :: "ws_manager \<Rightarrow> sigval \<Rightarrow> py_error option \<times> ws_manager" where
  "trade_on m sg =
     (let current_budget = budget (engine m);
          m1 = emit m (ApproveTrade sg current_budget)
      in case get_current_sentiment (ai_analyzer m1) of
           Inl e \<Rightarrow> (Some e, m1)
         | Inr current_sentiment \<Rightarrow>
             (case approve_trade (risk_manager (engine m1)) current_sentiment sg current_budget of
                Inl e \<Rightarrow> (Some e, m1)
              | Inr r \<Rightarrow>
                  (let m2 = with_risk m1 (snd r) in
                   if fst r then
                     (let m3 = emit m2 (Act sg);
                          a = act (engine m3) sg
                      in (fst a, m3\<lparr>engine := snd a\<rparr>))
                   else (None, m2))))"

text \<open>The loop \<open>for tick in result['data']\<close> of \<open>_route_data\<close>.\<close>

fun route_ticks :: "ws_manager \<Rightarrow> pyval list \<Rightarrow> py_error option \<times> ws_manager" where
  "route_ticks m [] = (None, m)"
| "route_ticks m (tick # rest) =
     (case tick of
        PDict t \<Rightarrow>
          (let tick_data = [(''symbol'', dict_get t ''i'' PNone),
                            (''price'', dict_get t ''a'' PNone),
                            (''volume'', dict_get t ''v'' PNone)]
           in case strat (engine m) of
                Momentum ms \<Rightarrow> (Some AttributeError, m)
              | Scalping ss \<Rightarrow>
                  (let m1 = emit m (OnTickUpdate tick_data);
                       r = on_tick_update ss tick_data;
                       m2 = with_strat m1 (Scalping (snd r))
                   in case fst r of
                        Inl e \<Rightarrow> (Some e, m2)
                      | Inr sg \<Rightarrow>
                          if sg then
                            (let t = trade_on m2 (SBool sg) in
                             case fst t of
                               Some e \<Rightarrow> (Some e, snd t)
                             | None \<Rightarrow> route_ticks (snd t) rest)
                          else route_ticks m2 rest))
      | _ \<Rightarrow> (Some AttributeError, m))"

text \<open>\<open>_route_data\<close>; \<open>pf\<close> is the reading of a float from a string (see \<open>py_float\<close>).\<close>

definition route_book ::
  "(string \<Rightarrow> real option) \<Rightarrow> ws_manager \<Rightarrow> pyval \<Rightarrow> py_error option \<times> ws_manager" where
  "route_book pf m payload =
     (case py_index0 payload of
        Inl e \<Rightarrow> (Some e, m)
      | Inr order_book_data \<Rightarrow>
          (case strat (engine m) of
             Momentum ms \<Rightarrow> (Some AttributeError, m)
           | Scalping ss \<Rightarrow>
               (let m1 = emit m (OnOrderBookUpdate order_book_data);
                    r = on_order_book_update pf ss order_book_data
                in (fst r, with_strat m1 (Scalping (snd r))))))"

definition route_data ::
  "(string \<Rightarrow> real option) \<Rightarrow> ws_manager \<Rightarrow> pyval \<Rightarrow> py_error option \<times> ws_manager" where
  "route_data pf m data =
     (case py_get data ''result'' (PDict []) of
        Inl e \<Rightarrow> (Some e, m)
      | Inr result \<Rightarrow>
          (case py_get result ''channel'' (PStr []) of
             Inl e \<Rightarrow> (Some e, m)
           | Inr channel \<Rightarrow>
               if \<not> py_truthy result then (None, m)
               else
                 (case py_item result ''data'' of
                    Inl e \<Rightarrow> (None, m)
                  | Inr payload \<Rightarrow>
                      (case py_startswith channel ''ticker.'' of
                         Inl e \<Rightarrow> (Some e, m)
                       | Inr is_ticker \<Rightarrow>
                           if is_ticker then
                             (case py_iter payload of
                                Inl e \<Rightarrow> (Some e, m)
                              | Inr ticks \<Rightarrow> route_ticks m ticks)
                           else
                             (case py_startswith channel ''book.'' of
                                Inl e \<Rightarrow> (Some e, m)
                              | Inr is_book \<Rightarrow>
                                  if is_book then route_book pf m payload else (None, m))))))"

text \<open>
  \<open>listen\<close>. A frame is the text received, represented by the value \<open>json.loads\<close> gives
  for it (\<open>Undecodable\<close> when it raises), with the outside world at its arrival. The
  loop ends when the stream ends or an exception leaves it.
\<close>

datatype message = Text pyval | Undecodable

definition json_loads :: "message \<Rightarrow> py_error + pyval" where
  "json_loads msg = (case msg of Text v \<Rightarrow> Inr v | Undecodable \<Rightarrow> Inl JSONDecodeError)"

text \<open>
  The body of the loop for one frame, and the loop. The heartbeat response is the dict
  passed to \<open>json.dumps\<close>: the id read from the frame and the method.
\<close>

definition listen_step ::
  "(string \<Rightarrow> real option) \<Rightarrow> ws_manager \<Rightarrow> world \<times> message \<Rightarrow> py_error option \<times> ws_manager" where
  "listen_step pf m f =
     (case json_loads (snd f) of
        Inl e \<Rightarrow> (Some e, m)
      | Inr data \<Rightarrow>
          (case py_get data ''method'' PNone of
             Inl e \<Rightarrow> (Some e, m)
           | Inr meth \<Rightarrow>
               if meth = PStr ''public/heartbeat'' then
                 (case py_get data ''id'' PNone of
                    Inl e \<Rightarrow> (Some e, m)
                  | Inr data_id \<Rightarrow>
                      (None,
                       emit m (WsSend (PDict [(''id'', data_id),
                                              (''method'', PStr ''public/respond-heartbeat'')]))))
               else
                 (case refresh_sentiment (fst f) (ai_analyzer m) of
                    Inl e \<Rightarrow> (Some e, emit m RefreshSentiment)
                  | Inr a \<Rightarrow> route_data pf ((emit m RefreshSentiment)\<lparr>ai_analyzer := a\<rparr>) data)))"

fun listen_loop ::
  "(string \<Rightarrow> real option) \<Rightarrow> ws_manager \<Rightarrow> (world \<times> message) list \<Rightarrow> py_error option \<times> ws_manager" where
  "listen_loop pf m [] = (None, m)"
| "listen_loop pf m (f # fs) =
     (let r = listen_step pf m f in
      case fst r of
        Some e \<Rightarrow> (Some e, snd r)
      | None \<Rightarrow> listen_loop pf (snd r) fs)"

definition listen ::
  "(string \<Rightarrow> real option) \<Rightarrow> ws_manager \<Rightarrow> world \<Rightarrow> (world \<times> message) list \<Rightarrow> py_error option \<times> ws_manager" where
  "listen pf m w0 frames =
     (case refresh_sentiment w0 (ai_analyzer m) of
        Inl e \<Rightarrow> (Some e, emit m RefreshSentiment)
      | Inr a \<Rightarrow> listen_loop pf ((emit m RefreshSentiment)\<lparr>ai_analyzer := a\<rparr>) frames)"

section \<open>Concrete objects used to run the definitions\<close>

definition demo_cfg :: config where
  "demo_cfg = \<lparr> execution_mode = ''auto'', large_order_threshold_usdt = 500,
       throttle_window = 2, throttle_threshold_pct = 1/2, daily_drawdown_pct = 1/2,
       total_budget_usdt = 1000, risk_per_trade_pct = 1/100, stop_loss_pct = 1/250,
       take_profit_pct = 1/100, ema_len = 12, zscore_len = 20, zscore_entry = 2/5,
       rsi_oversold = 45, rsi_overbought = 55, symbol_ccxt = ''BTC/USDT'', cooldown_sec = 10 \<rparr>"

text \<open>The manager as \<open>RiskManager(demo_cfg, analyzer)\<close> leaves it.\<close>

definition fresh_rm :: risk_manager where
  "fresh_rm = \<lparr> rm_cfg = demo_cfg, starting_budget = 1000, trading_paused_drawdown = False,
       trade_history = [], trading_paused_throttle = False, has_log = False \<rparr>"

text \<open>The same manager once a logger has been attached to it from outside.\<close>

definition logged_rm :: risk_manager where
  "logged_rm = fresh_rm\<lparr>has_log := True\<rparr>"

text \<open>That manager with a full window of two losses, and with the throttle tripped.\<close>

definition losing_rm :: risk_manager where
  "losing_rm = logged_rm\<lparr>trade_history := [0, 0]\<rparr>"

definition throttled_rm :: risk_manager where
  "throttled_rm = losing_rm\<lparr>trading_paused_throttle := True\<rparr>"

definition enter_sig :: signal where
  "enter_sig = \<lparr> action = ''enter_long'', price = Some 100, reason = None \<rparr>"

definition exit_sig :: signal where
  "exit_sig = \<lparr> action = ''exit'', price = Some 110, reason = None \<rparr>"

definition demo_momentum :: momentum where
  "demo_momentum = \<lparr> ms_cfg = demo_cfg, last_signal_ts = 0, prices = [], ema_state = None,
       ms_pos = None, tick_count = 0 \<rparr>"

definition demo_engine :: execution_engine where
  "demo_engine = ExecutionEngine_init demo_cfg (Momentum demo_momentum) fresh_rm"

text \<open>An engine whose budget has gone negative.\<close>

definition indebted_engine :: execution_engine where
  "indebted_engine = demo_engine\<lparr>budget := - 100\<rparr>"

text \<open>An engine configured with a mode other than auto and twap, and a low threshold.\<close>

definition limit_cfg :: config where
  "limit_cfg = demo_cfg\<lparr>execution_mode := ''limit'', large_order_threshold_usdt := 5\<rparr>"

definition limit_engine :: execution_engine where
  "limit_engine = ExecutionEngine_init limit_cfg (Momentum (demo_momentum\<lparr>ms_cfg := limit_cfg\<rparr>)) fresh_rm"

text \<open>A Momentum strategy holding a position opened at 100.\<close>

definition holding_momentum :: momentum where
  "holding_momentum = demo_momentum\<lparr>ms_pos := Some \<lparr>side = ''LONG'', qty = 1/10, entry = 100\<rparr>\<rparr>"

text \<open>The demo engine over that strategy.\<close>

definition holding_engine :: execution_engine where
  "holding_engine = demo_engine\<lparr>strat := Momentum holding_momentum\<rparr>"

text \<open>The demo engine with a threshold that a 10 USDT order exceeds.\<close>

definition low_threshold_engine :: execution_engine where
  "low_threshold_engine =
     demo_engine\<lparr>ee_cfg := demo_cfg\<lparr>large_order_threshold_usdt := 5\<rparr>\<rparr>"

text \<open>
  A Scalping session: an order book that carries bids and no asks, then an entry.
\<close>

definition bids_only_book :: pyval where
  "bids_only_book = PDict [(''bids'', PList [PList [PNum 100, PNum 1]])]"

definition no_float :: "string \<Rightarrow> real option" where
  "no_float s = None"

definition scalping_after_book :: "pyval scalping" where
  "scalping_after_book =
     snd (on_order_book_update no_float (ScalpingStrategy_init demo_cfg) bids_only_book)"

definition scalping_engine :: execution_engine where
  "scalping_engine =
     snd (act (ExecutionEngine_init demo_cfg (Scalping scalping_after_book) fresh_rm)
            (SDict enter_sig))"

definition held_scalping :: "pyval scalping" where
  "held_scalping =
     \<lparr> ss_cfg = demo_cfg, candles = [], current_candle = None, last_candle_timestamp = None,
       latest_bid = Some 100, latest_ask = None,
       ss_pos = Some \<lparr>side = ''LONG'', qty = 1/10, entry = 100\<rparr> \<rparr>"

text \<open>The same session once an ask of 105 has been observed.\<close>

definition quoted_engine :: execution_engine where
  "quoted_engine = scalping_engine\<lparr>strat := Scalping (held_scalping\<lparr>latest_ask := Some 105\<rparr>)\<rparr>"

text \<open>
  Indicator columns for a run of \<open>generate_signal\<close>: the exponential average seeded with
  the simple average of the first \<open>n\<close> closes (NaN before row \<open>n - 1\<close>), and an RSI column
  that reads 50 on every row.
\<close>

definition seeded_ema :: "nat \<Rightarrow> real list \<Rightarrow> nat \<Rightarrow> real option" where
  "seeded_ema n cs i =
     (if n = 0 \<or> length cs < n \<or> length cs \<le> i \<or> i + 1 < n then None
      else Some (foldl (\<lambda>e x. (2 / (real n + 1)) * x + (1 - 2 / (real n + 1)) * e)
                   (sum_list (take n cs) / real n)
                   (take (i + 1 - n) (drop n cs))))"

definition demo_ta :: indicators where
  "demo_ta = \<lparr> ema9 = seeded_ema 9, ema21 = seeded_ema 21, rsi14 = (\<lambda>cs i. Some 50) \<rparr>"

definition flat_candle :: "real \<Rightarrow> real candle" where
  "flat_candle p = \<lparr>c_open = p, c_high = p, c_low = p, c_close = p, c_volume = 0\<rparr>"

text \<open>Twelve minutes at 100, nine at 90, then (for the second series) one at 200.\<close>

definition falling_closes :: "real list" where
  "falling_closes = [100, 100, 100, 100, 100, 100, 100, 100, 100, 100, 100, 100,
                     90, 90, 90, 90, 90, 90, 90, 90, 90]"

definition frame_of :: "real list \<Rightarrow> (int \<times> real candle) list" where
  "frame_of cs = map (\<lambda>ic. (60000 * int (fst ic), flat_candle (snd ic))) (zip [0..<length cs] cs)"

definition short_scalping :: "real scalping" where
  "short_scalping = (ScalpingStrategy_init demo_cfg)\<lparr>candles := frame_of falling_closes\<rparr>"

definition crossing_scalping :: "real scalping" where
  "crossing_scalping = (ScalpingStrategy_init demo_cfg)\<lparr>candles := frame_of (falling_closes @ [200])\<rparr>"

section \<open>Observations on the router\<close>

text \<open>An event of the ticker loop: \<open>on_tick_update\<close> called with the keys symbol, price, volume.\<close>

definition is_tick_event :: "event \<Rightarrow> bool" where
  "is_tick_event e =
     (case e of OnTickUpdate td \<Rightarrow> map fst td = [''symbol'', ''price'', ''volume''] | _ \<Rightarrow> False)"

text \<open>The payload names a ticker channel: \<open>data['result']['channel']\<close> starts with "ticker.".\<close>

definition ticker_channel :: "pyval \<Rightarrow> bool" where
  "ticker_channel data =
     (case py_get data ''result'' (PDict []) of
        Inr (PDict r) \<Rightarrow>
          (case dict_get r ''channel'' (PStr []) of PStr ch \<Rightarrow> prefix ''ticker.'' ch | _ \<Rightarrow> False)
      | _ \<Rightarrow> False)"

text \<open>
  What an exit booked at price \<open>x\<close> for the position \<open>pos\<close> makes of the engine: the
  profit is added to the budget and reported to the risk manager, one EXIT row is
  appended, and \<open>st\<close> is the strategy with its position cleared.
\<close>

definition booked_exit ::
  "execution_engine \<Rightarrow> signal \<Rightarrow> position \<Rightarrow> real \<Rightarrow> strategy \<Rightarrow> execution_engine" where
  "booked_exit self d pos x st =
     self\<lparr>budget := budget self + (x - entry pos) * qty pos,
          risk_manager := snd (update_trade_history (risk_manager self) ((x - entry pos) * qty pos)),
          trade_log := trade_log self @
            [\<lparr>tr_symbol = symbol_ccxt (ee_cfg self), tr_action = ''EXIT'', tr_side = side pos,
              tr_price = x, tr_qty = qty pos,
              tr_reason = (case reason d of None \<Rightarrow> [] | Some r \<Rightarrow> r),
              tr_pnl = Some ((x - entry pos) * qty pos)\<rparr>],
          strat := st\<rparr>"

text \<open>A heartbeat frame, and the response that echoes its correlation id.\<close>

definition is_heartbeat :: "message \<Rightarrow> bool" where
  "is_heartbeat msg =
     (case msg of
        Text (PDict d) \<Rightarrow> dict_get d ''method'' PNone = PStr ''public/heartbeat''
      | _ \<Rightarrow> False)"

definition heartbeat_echo :: "message \<Rightarrow> pyval" where
  "heartbeat_echo msg =
     (case msg of
        Text (PDict d) \<Rightarrow>
          PDict [(''id'', (case map_of d ''id'' of None \<Rightarrow> PNone | Some i \<Rightarrow> i)),
                 (''method'', PStr ''public/respond-heartbeat'')]
      | _ \<Rightarrow> PNone)"

text \<open>The messages sent, in order, among a list of events.\<close>

fun sends :: "event list \<Rightarrow> pyval list" where
  "sends [] = []"
| "sends (WsSend v # es) = v # sends es"
| "sends (e # es) = sends es"

text \<open>The frames that \<open>listen_loop\<close> takes from the stream: up to the one that raises.\<close>

fun taken ::
  "(string \<Rightarrow> real option) \<Rightarrow> ws_manager \<Rightarrow> (world \<times> message) list \<Rightarrow> (world \<times> message) list" where
  "taken pf m [] = []"
| "taken pf m (f # fs) =
     (let r = listen_step pf m f in
      f # (case fst r of Some e \<Rightarrow> [] | None \<Rightarrow> taken pf (snd r) fs))"

text \<open>
  The frames that a run of \<open>listen\<close> takes: none when the refresh before the loop raises.
\<close>

definition taken_by_listen ::
  "(string \<Rightarrow> real option) \<Rightarrow> ws_manager \<Rightarrow> world \<Rightarrow> (world \<times> message) list \<Rightarrow> (world \<times> message) list" where
  "taken_by_listen pf m w0 frames =
     (case refresh_sentiment w0 (ai_analyzer m) of
        Inl e \<Rightarrow> []
      | Inr a \<Rightarrow> taken pf ((emit m RefreshSentiment)\<lparr>ai_analyzer := a\<rparr>) frames)"

text \<open>
  A manager over a Scalping strategy, one over a Momentum strategy, and one whose
  analyzer could not build its client; messages.
\<close>

definition scalping_ws :: ws_manager where
  "scalping_ws =
     \<lparr> engine = ExecutionEngine_init demo_cfg (Scalping (ScalpingStrategy_init demo_cfg)) fresh_rm,
       ai_analyzer = AI_Analyzer_init True, trace = [] \<rparr>"

definition momentum_ws :: ws_manager where
  "momentum_ws = \<lparr> engine = demo_engine, ai_analyzer = AI_Analyzer_init True, trace = [] \<rparr>"

definition broken_ws :: ws_manager where
  "broken_ws = scalping_ws\<lparr>ai_analyzer := AI_Analyzer_init False\<rparr>"

definition ticker_msg :: pyval where
  "ticker_msg =
     PDict [(''id'', PNum (- 1)), (''method'', PStr ''subscribe''),
            (''result'', PDict [(''channel'', PStr ''ticker.BTC_USDT''),
                               (''data'', PList [PDict [(''i'', PStr ''BTC_USDT''), (''a'', PStr ''100.5''),
                                                       (''v'', PStr ''12'')],
                                                PDict [(''i'', PStr ''BTC_USDT''), (''a'', PNum 101)]])])]"

definition heartbeat_msg :: pyval where
  "heartbeat_msg = PDict [(''id'', PNum 42), (''method'', PStr ''public/heartbeat'')]"

definition second_heartbeat_msg :: pyval where
  "second_heartbeat_msg = PDict [(''method'', PStr ''public/heartbeat''), (''id'', PNum 7)]"

definition quiet_world :: world where
  "quiet_world = \<lparr> clock = 10, ai_response = None \<rparr>"

text \<open>A stream: a heartbeat with id 42, a ticker message, a heartbeat with id 7.\<close>

definition demo_frames :: "(world \<times> message) list" where
  "demo_frames = [(quiet_world, Text heartbeat_msg), (quiet_world, Text ticker_msg),
                  (quiet_world, Text second_heartbeat_msg)]"

section \<open>Properties\<close>

subsection \<open>The risk gate\<close>

lemma approve_trade_keeps_drawdown:
  "trading_paused_drawdown self \<Longrightarrow> approve_trade self sent sg b = Inr (ok, self') \<Longrightarrow>
   trading_paused_drawdown self'"
  by (auto simp: approve_trade_def Let_def split: if_splits sigval.splits)

lemma update_keeps_drawdown:
  "trading_paused_drawdown (snd (update_trade_history self pnl)) = trading_paused_drawdown self"
  by (simp add: update_trade_history_def Let_def)

lemma rm_step_keeps_drawdown:
  "trading_paused_drawdown self \<Longrightarrow> trading_paused_drawdown (rm_step self c)"
  by (cases c) (auto simp: update_keeps_drawdown split: sum.splits dest: approve_trade_keeps_drawdown)

lemma rm_run_keeps_drawdown:
  "trading_paused_drawdown self \<Longrightarrow> trading_paused_drawdown (rm_run self calls)"
  unfolding rm_run_def
  by (induction calls arbitrary: self) (simp_all add: rm_step_keeps_drawdown)

lemma drawdown_trips:
  assumes "has_log self" "\<not> (action d = ''enter_long'' \<and> sent = ''Bearish'')"
    and "0 < starting_budget self"
    and "cb < starting_budget self * (1 - daily_drawdown_pct (rm_cfg self))"
  shows "approve_trade self sent (SDict d) cb = Inr (False, self\<lparr>trading_paused_drawdown := True\<rparr>)"
proof -
  let ?B = "starting_budget self"
  have "cb - ?B < ?B * (- daily_drawdown_pct (rm_cfg self))"
    using assms(4) by (simp add: algebra_simps)
  then have "(cb - ?B) / ?B < - daily_drawdown_pct (rm_cfg self)"
    using assms(3) by (simp add: pos_divide_less_eq mult.commute)
  then show ?thesis
    using assms(1,2,3) by (auto simp: approve_trade_def Let_def)
qed

lemma drawdown_strict_at_boundary:
  assumes "has_log self" "\<not> (action d = ''enter_long'' \<and> sent = ''Bearish'')"
    and "starting_budget self \<noteq> 0"
    and "(cb - starting_budget self) / starting_budget self = - daily_drawdown_pct (rm_cfg self)"
    and "approve_trade self sent (SDict d) cb = Inr (ok, self')"
  shows "trading_paused_drawdown self' = trading_paused_drawdown self"
  using assms by (auto simp: approve_trade_def Let_def split: if_splits)

lemma has_log_step: "has_log (rm_step self c) = has_log self"
  by (cases c)
     (auto simp: approve_trade_def update_trade_history_def Let_def
           split: sum.splits if_splits sigval.splits)

lemma has_log_run: "has_log (rm_run self calls) = has_log self"
  unfolding rm_run_def
  by (induction calls arbitrary: self) (simp_all add: has_log_step)

lemma sentiment_veto_logic:
  "has_log self \<Longrightarrow> action d = ''enter_long'' \<Longrightarrow>
   approve_trade self ''Bearish'' (SDict d) cb = Inr (False, self)"
  by (simp add: approve_trade_def)

lemma sentiment_only_vetoes_entries:
  "action d \<noteq> ''enter_long'' \<Longrightarrow>
   approve_trade self s1 (SDict d) cb = approve_trade self s2 (SDict d) cb"
  by (simp add: approve_trade_def)

lemma unlogged_drawdown_step:
  "\<not> has_log self \<Longrightarrow> trading_paused_drawdown (rm_step self c) = trading_paused_drawdown self"
  by (cases c) (simp_all add: approve_trade_def update_keeps_drawdown)

lemma unlogged_drawdown_run:
  "\<not> has_log self \<Longrightarrow> trading_paused_drawdown (rm_run self calls) = trading_paused_drawdown self"
  unfolding rm_run_def
proof (induction calls arbitrary: self)
  case Nil
  then show ?case by simp
next
  case (Cons c calls)
  have "\<not> has_log (rm_step self c)" using Cons.prems by (simp add: has_log_step)
  then show ?case
    using Cons.IH [of "rm_step self c"] Cons.prems by (simp add: unlogged_drawdown_step)
qed

text \<open>
  C2: on the code, the drawdown breaker cannot trip. A manager built by
  \<open>RiskManager.__init__\<close> has no attribute \<open>log\<close>, and \<open>approve_trade\<close> reads \<open>self.log\<close>
  before the drawdown check: in every session every call raises AttributeError, whatever
  the current budget, and the drawdown flag is clear before and after it. (Behind the
  logging line the check is \<open>drawdown_trips\<close>, strict at the boundary:
  \<open>drawdown_strict_at_boundary\<close>; a flag that is set stays set: \<open>rm_run_keeps_drawdown\<close>.)
\<close>

theorem drawdown_never_trips:
  "RiskManager_init cfg = Inr rm \<Longrightarrow>
   approve_trade (rm_run rm calls) sent sg cb = Inl AttributeError
   \<and> \<not> trading_paused_drawdown (rm_run rm calls)
   \<and> \<not> trading_paused_drawdown (rm_run rm (calls @ [Approve sent sg cb]))"
proof -
  assume i: "RiskManager_init cfg = Inr rm"
  then have l: "\<not> has_log rm" and d: "\<not> trading_paused_drawdown rm"
    by (auto simp: RiskManager_init_def split: if_splits)
  have "approve_trade (rm_run rm calls) sent sg cb = Inl AttributeError"
    using l by (simp add: approve_trade_def has_log_run)
  moreover have "\<not> trading_paused_drawdown (rm_run rm calls)"
    using l d by (simp add: unlogged_drawdown_run)
  moreover have "\<not> trading_paused_drawdown (rm_run rm (calls @ [Approve sent sg cb]))"
    using l d by (simp add: unlogged_drawdown_run)
  ultimately show ?thesis by blast
qed

theorem drawdown_never_trips_witness:
  "RiskManager_init demo_cfg = Inr fresh_rm
   \<and> (400::real) \<le> starting_budget fresh_rm * (1 - daily_drawdown_pct (rm_cfg fresh_rm))
   \<and> (400 - starting_budget fresh_rm) / starting_budget fresh_rm < - daily_drawdown_pct (rm_cfg fresh_rm)
   \<and> approve_trade (rm_run fresh_rm []) ''Neutral'' (SDict exit_sig) 400 = Inl AttributeError
   \<and> \<not> trading_paused_drawdown (rm_run fresh_rm ([] @ [Approve ''Neutral'' (SDict exit_sig) 400]))"
proof -
  have h: "RiskManager_init demo_cfg = Inr fresh_rm"
    by (simp add: RiskManager_init_def demo_cfg_def fresh_rm_def)
  show ?thesis
    using h drawdown_never_trips [OF h, of "[]" "''Neutral''" "SDict exit_sig" 400]
    by (simp add: fresh_rm_def demo_cfg_def)
qed

text \<open>
  C7: on the code, a manager built by \<open>RiskManager.__init__\<close> has no attribute \<open>log\<close>, and
  \<open>approve_trade\<close> reads \<open>self.log\<close> before its first check. In every session, every
  call of \<open>approve_trade\<close> raises AttributeError; none returns False. (With a logger
  attached the veto is as the claim says: \<open>sentiment_veto_logic\<close>,
  \<open>sentiment_only_vetoes_entries\<close>.)
\<close>

theorem approve_trade_raises:
  "RiskManager_init cfg = Inr rm \<Longrightarrow>
   approve_trade (rm_run rm calls) sent sg cb = Inl AttributeError"
  by (auto simp: RiskManager_init_def approve_trade_def has_log_run split: if_splits)

theorem approve_trade_raises_witness:
  "RiskManager_init demo_cfg = Inr fresh_rm
   \<and> approve_trade (rm_run fresh_rm []) ''Bearish'' (SDict enter_sig) 1000 = Inl AttributeError"
proof -
  have h: "RiskManager_init demo_cfg = Inr fresh_rm"
    by (simp add: RiskManager_init_def demo_cfg_def fresh_rm_def)
  show ?thesis
    using h approve_trade_raises [OF h, of "[]" "''Bearish''" "SDict enter_sig" 1000] by simp
qed

subsection \<open>Order sizing\<close>

lemma order_size_nonneg_notional:
  assumes "0 < pr" "0 \<le> budget self * risk_per_trade_pct (ee_cfg self)"
  shows "order_size self (Some pr) = budget self * risk_per_trade_pct (ee_cfg self) / pr"
proof -
  have "0 \<le> budget self * risk_per_trade_pct (ee_cfg self) / pr"
    using assms by (intro divide_nonneg_pos)
  then show ?thesis
    using assms(1) by (simp add: order_size_def Let_def max_def)
qed

text \<open>
  C3, as the code has it: \<open>_order_size\<close> returns 0 for a price that is None or not
  positive; for a positive price it returns \<open>(budget * risk_per_trade_pct) / price\<close>
  floored at 0, which is that quotient exactly when \<open>budget * risk_per_trade_pct\<close> is
  not negative.
\<close>

theorem order_size_floored:
  "order_size self None = 0
   \<and> (pr \<le> 0 \<longrightarrow> order_size self (Some pr) = 0)
   \<and> (0 < pr \<longrightarrow> order_size self (Some pr)
          = max (budget self * risk_per_trade_pct (ee_cfg self) / pr) 0)
   \<and> (0 < pr \<and> 0 \<le> budget self * risk_per_trade_pct (ee_cfg self)
        \<longrightarrow> order_size self (Some pr) = budget self * risk_per_trade_pct (ee_cfg self) / pr)"
proof (intro conjI impI)
  show "order_size self None = 0" by (simp add: order_size_def)
  show "order_size self (Some pr) = 0" if "pr \<le> 0"
    using that by (simp add: order_size_def)
  show "order_size self (Some pr) = max (budget self * risk_per_trade_pct (ee_cfg self) / pr) 0"
    if "0 < pr" using that by (simp add: order_size_def Let_def)
  show "order_size self (Some pr) = budget self * risk_per_trade_pct (ee_cfg self) / pr"
    if "0 < pr \<and> 0 \<le> budget self * risk_per_trade_pct (ee_cfg self)"
    using that order_size_nonneg_notional by blast
qed

theorem order_size_floored_witness:
  "order_size demo_engine None = 0
   \<and> (0::real) \<le> 0 \<and> order_size demo_engine (Some 0) = 0
   \<and> (0::real) < 100
   \<and> 0 \<le> budget demo_engine * risk_per_trade_pct (ee_cfg demo_engine)
   \<and> order_size demo_engine (Some 100) = 1/10"
  using order_size_floored [of demo_engine 0] order_size_floored [of demo_engine 100]
  by (simp add: demo_engine_def ExecutionEngine_init_def demo_cfg_def)

text \<open>
  C3 as stated fails for a negative budget: budget -100, risk 1/100, price 10. The
  quotient is -1/10 and the code returns 0.
\<close>

theorem order_size_negative_budget_counterexample:
  "(0::real) < 10
   \<and> budget indebted_engine * risk_per_trade_pct (ee_cfg indebted_engine) / 10 = - (1/10)
   \<and> order_size indebted_engine (Some 10) = 0"
  by (simp add: order_size_def indebted_engine_def demo_engine_def ExecutionEngine_init_def
        demo_cfg_def)

subsection \<open>Entries and the route label\<close>

lemma act_enter_fills:
  assumes "get_pos (strat self) = None"
    and "getattr_latest_bid (strat self) (price d) = Some pr"
    and "0 < order_size self (Some pr)"
  shows "act_enter self d =
     (None,
      self\<lparr>trade_log := trade_log self @
               [\<lparr>tr_symbol = symbol_ccxt (ee_cfg self), tr_action = ''ENTER'',
                 tr_side = ''LONG'', tr_price = pr, tr_qty = order_size self (Some pr),
                 tr_reason = route_reason (ee_cfg self) (order_size self (Some pr) * pr),
                 tr_pnl = None\<rparr>],
            strat := set_pos (strat self)
                       (Some \<lparr>side = ''LONG'', qty = order_size self (Some pr), entry = pr\<rparr>)\<rparr>)"
  using assms by (simp add: act_enter_def Let_def)

text \<open>
  C5, as the code has it. An enter_long signal executed with no open position, an entry
  price and a positive quantity is recorded with reason "twap_entry" exactly when the
  lower-cased mode is "auto" and the notional exceeds the threshold, or the mode is
  "twap"; otherwise with "smart_limit_entry". In both cases the trade row and the
  position carry the same entry price and quantity.
\<close>

theorem entry_route_reason:
  "action d = ''enter_long'' \<and> get_pos (strat self) = None
   \<and> getattr_latest_bid (strat self) (price d) = Some pr
   \<and> 0 < order_size self (Some pr)
   \<longrightarrow> act self (SDict d) =
     (None,
      self\<lparr>trade_log := trade_log self @
               [\<lparr>tr_symbol = symbol_ccxt (ee_cfg self), tr_action = ''ENTER'',
                 tr_side = ''LONG'', tr_price = pr, tr_qty = order_size self (Some pr),
                 tr_reason =
                   (if (lower (execution_mode (ee_cfg self)) = ''auto''
                        \<and> order_size self (Some pr) * pr > large_order_threshold_usdt (ee_cfg self))
                       \<or> lower (execution_mode (ee_cfg self)) = ''twap''
                    then ''twap_entry'' else ''smart_limit_entry''),
                 tr_pnl = None\<rparr>],
            strat := set_pos (strat self)
                       (Some \<lparr>side = ''LONG'', qty = order_size self (Some pr), entry = pr\<rparr>)\<rparr>)"
proof (intro impI, elim conjE)
  assume a: "action d = ''enter_long''" and p: "get_pos (strat self) = None"
    and b: "getattr_latest_bid (strat self) (price d) = Some pr"
    and q: "0 < order_size self (Some pr)"
  have "act self (SDict d) = act_enter self d"
    using a by (simp add: act_def)
  then show "act self (SDict d) =
     (None,
      self\<lparr>trade_log := trade_log self @
               [\<lparr>tr_symbol = symbol_ccxt (ee_cfg self), tr_action = ''ENTER'',
                 tr_side = ''LONG'', tr_price = pr, tr_qty = order_size self (Some pr),
                 tr_reason =
                   (if (lower (execution_mode (ee_cfg self)) = ''auto''
                        \<and> order_size self (Some pr) * pr > large_order_threshold_usdt (ee_cfg self))
                       \<or> lower (execution_mode (ee_cfg self)) = ''twap''
                    then ''twap_entry'' else ''smart_limit_entry''),
                 tr_pnl = None\<rparr>],
            strat := set_pos (strat self)
                       (Some \<lparr>side = ''LONG'', qty = order_size self (Some pr), entry = pr\<rparr>)\<rparr>)"
    using act_enter_fills [OF p b q] by (simp add: route_reason_def Let_def)
qed

lemma lower_auto: "lower ''auto'' = ''auto''"
  by (simp add: lower_def lower_char_def)

lemma lower_limit: "lower ''limit'' = ''limit''"
  by (simp add: lower_def lower_char_def)

lemma order_size_demo: "order_size demo_engine (Some 100) = 1/10"
  by (simp add: order_size_def demo_engine_def ExecutionEngine_init_def demo_cfg_def)

lemma order_size_low: "order_size low_threshold_engine (Some 100) = 1/10"
  by (simp add: order_size_def low_threshold_engine_def demo_engine_def ExecutionEngine_init_def demo_cfg_def)

theorem entry_route_reason_witness:
  "action enter_sig = ''enter_long'' \<and> get_pos (strat demo_engine) = None
   \<and> getattr_latest_bid (strat demo_engine) (price enter_sig) = Some 100
   \<and> 0 < order_size demo_engine (Some 100)
   \<and> map tr_reason (trade_log (snd (act demo_engine (SDict enter_sig)))) = [''smart_limit_entry'']
   \<and> map tr_price (trade_log (snd (act demo_engine (SDict enter_sig)))) = [100]
   \<and> get_pos (strat (snd (act demo_engine (SDict enter_sig))))
       = Some \<lparr>side = ''LONG'', qty = 1/10, entry = 100\<rparr>
   \<and> map tr_reason (trade_log (snd (act low_threshold_engine (SDict enter_sig)))) = [''twap_entry'']
   \<and> map tr_price (trade_log (snd (act low_threshold_engine (SDict enter_sig)))) = [100]
   \<and> get_pos (strat (snd (act low_threshold_engine (SDict enter_sig))))
       = Some \<lparr>side = ''LONG'', qty = 1/10, entry = 100\<rparr>"
  using entry_route_reason [of enter_sig demo_engine 100]
        entry_route_reason [of enter_sig low_threshold_engine 100]
        order_size_demo order_size_low
  by (simp add: lower_auto low_threshold_engine_def demo_engine_def ExecutionEngine_init_def demo_cfg_def
        demo_momentum_def enter_sig_def)

text \<open>
  C5 as stated fails when the mode is neither auto nor twap: with mode "limit" and
  threshold 5, an order of notional 10 is recorded as "smart_limit_entry".
\<close>

theorem entry_route_forced_limit_counterexample:
  "get_pos (strat limit_engine) = None
   \<and> order_size limit_engine (Some 100) * 100 > large_order_threshold_usdt (ee_cfg limit_engine)
   \<and> map tr_reason (trade_log (snd (act limit_engine (SDict enter_sig)))) = [''smart_limit_entry'']"
  by (simp add: act_def act_enter_def route_reason_def order_size_def lower_limit Let_def
        limit_engine_def limit_cfg_def ExecutionEngine_init_def demo_cfg_def
        demo_momentum_def enter_sig_def)

subsection \<open>Momentum exits\<close>

lemma on_price_invalid:
  "on_price self now None = (Inr None, self)"
  "le_zero px \<or> \<not> isfinite px \<Longrightarrow> on_price self now (Some px) = (Inr None, self)"
  by (auto simp: on_price_def)

lemma on_price_holding:
  assumes "ms_pos self = Some pos" "0 < px" "ema_len (ms_cfg self) \<noteq> - 1"
  shows "fst (on_price self now (Some (Fin px))) =
     Inr (if px \<ge> entry pos * (1 + take_profit_pct (ms_cfg self))
          then Some \<lparr>action = ''exit'', price = Some px, reason = Some ''tp''\<rparr>
          else if px \<le> entry pos * (1 + stop_loss_pct (ms_cfg self))
          then Some \<lparr>action = ''exit'', price = Some px, reason = Some ''sl''\<rparr>
          else None)"
proof -
  have "ema_len (ms_cfg self) + 1 \<noteq> 0" using assms(3) by arith
  then show ?thesis
    using assms(1,2) by (simp add: on_price_def on_valid_price_def Let_def)
qed

text \<open>
  C6: with a position open at entry \<open>e\<close> and a price that passes the guard on the
  input (a positive number; \<open>ema_len\<close> not -1, so that the smoothing factor is defined),
  \<open>on_price\<close> returns the exit signal with reason "tp" when
  \<open>px \<ge> e * (1 + take_profit_pct)\<close>, otherwise the exit signal with reason "sl" when
  \<open>px \<le> e * (1 + stop_loss_pct)\<close>, otherwise no signal. Both thresholds add their
  percentage.
\<close>

theorem momentum_exit_thresholds:
  "ms_pos self = Some pos \<and> 0 < px \<and> ema_len (ms_cfg self) \<noteq> - 1
   \<longrightarrow> fst (on_price self now (Some (Fin px))) =
     Inr (if px \<ge> entry pos * (1 + take_profit_pct (ms_cfg self))
          then Some \<lparr>action = ''exit'', price = Some px, reason = Some ''tp''\<rparr>
          else if px \<le> entry pos * (1 + stop_loss_pct (ms_cfg self))
          then Some \<lparr>action = ''exit'', price = Some px, reason = Some ''sl''\<rparr>
          else None)"
  using on_price_holding by blast

theorem momentum_exit_thresholds_witness:
  "ms_pos holding_momentum = Some \<lparr>side = ''LONG'', qty = 1/10, entry = 100\<rparr>
   \<and> ema_len (ms_cfg holding_momentum) \<noteq> - 1
   \<and> (0::real) < 101 \<and> (0::real) < 1002/10 \<and> (0::real) < 1006/10
   \<and> fst (on_price holding_momentum 0 (Some (Fin 101)))
       = Inr (Some \<lparr>action = ''exit'', price = Some 101, reason = Some ''tp''\<rparr>)
   \<and> fst (on_price holding_momentum 0 (Some (Fin (1002/10))))
       = Inr (Some \<lparr>action = ''exit'', price = Some (1002/10), reason = Some ''sl''\<rparr>)
   \<and> fst (on_price holding_momentum 0 (Some (Fin (1006/10)))) = Inr None"
  using momentum_exit_thresholds [of holding_momentum "\<lparr>side = ''LONG'', qty = 1/10, entry = 100\<rparr>" 101 0]
        momentum_exit_thresholds [of holding_momentum "\<lparr>side = ''LONG'', qty = 1/10, entry = 100\<rparr>" "1002/10" 0]
        momentum_exit_thresholds [of holding_momentum "\<lparr>side = ''LONG'', qty = 1/10, entry = 100\<rparr>" "1006/10" 0]
  by (simp add: holding_momentum_def demo_momentum_def demo_cfg_def)

subsection \<open>Exits\<close>

lemma update_does_not_raise:
  "1 \<le> throttle_window (rm_cfg rm) \<Longrightarrow> fst (update_trade_history rm pnl) = None"
  by (auto simp: update_trade_history_def deque_append_def Let_def)

lemma act_exit_drops:
  assumes "get_pos (strat self) = Some pos"
    and "getattr_latest_ask (strat self) (price d) = None"
  shows "act_exit self d = (None, self)"
  using assms by (simp add: act_exit_def)

lemma act_exit_fills:
  assumes "get_pos (strat self) = Some pos"
    and "getattr_latest_ask (strat self) (price d) = Some x"
    and "0 < entry pos" "0 < qty pos"
    and "1 \<le> throttle_window (rm_cfg (risk_manager self))"
  shows "act_exit self d = (None, booked_exit self d pos x (set_pos (strat self) None))"
  using assms update_does_not_raise [OF assms(5), of "(x - entry pos) * qty pos"]
  by (simp add: act_exit_def booked_exit_def Let_def)

text \<open>
  C4, as the code has it. For an exit signal while a position with positive entry and
  quantity is open (and a throttle window of at least 1, so that
  \<open>update_trade_history\<close> does not raise): the exit price is the attribute \<open>latest_ask\<close>
  of a Scalping strategy, and the signal's price for a Momentum strategy, which has no
  such attribute. When that price is None the call changes nothing; otherwise the
  profit \<open>(exit_price - entry) * qty\<close> is added to the budget and reported to the risk
  manager, one EXIT row is appended and the position is cleared.
\<close>

theorem exit_price_and_booking:
  "(strat self = Scalping ss \<and> ss_pos ss = Some pos \<and> 0 < entry pos \<and> 0 < qty pos
      \<and> action d = ''exit'' \<and> 1 \<le> throttle_window (rm_cfg (risk_manager self))
     \<longrightarrow> (latest_ask ss = None \<longrightarrow> act self (SDict d) = (None, self))
        \<and> (latest_ask ss = Some x \<longrightarrow>
             act self (SDict d) = (None, booked_exit self d pos x (Scalping (ss\<lparr>ss_pos := None\<rparr>)))))
   \<and> (strat self = Momentum ms \<and> ms_pos ms = Some pos \<and> 0 < entry pos \<and> 0 < qty pos
      \<and> action d = ''exit'' \<and> 1 \<le> throttle_window (rm_cfg (risk_manager self))
     \<longrightarrow> (price d = None \<longrightarrow> act self (SDict d) = (None, self))
        \<and> (price d = Some x \<longrightarrow>
             act self (SDict d) = (None, booked_exit self d pos x (Momentum (ms\<lparr>ms_pos := None\<rparr>)))))"
proof (intro conjI impI; elim conjE)
  assume s: "strat self = Scalping ss" and p: "ss_pos ss = Some pos" and a: "action d = ''exit''"
  have gp: "get_pos (strat self) = Some pos" using s p by simp
  have ex: "act self (SDict d) = act_exit self d" using a by (simp add: act_def)
  show "act self (SDict d) = (None, self)" if "latest_ask ss = None"
    using ex act_exit_drops [OF gp, of d] that s by simp
  show "act self (SDict d) = (None, booked_exit self d pos x (Scalping (ss\<lparr>ss_pos := None\<rparr>)))"
    if "latest_ask ss = Some x" "0 < entry pos" "0 < qty pos"
       "1 \<le> throttle_window (rm_cfg (risk_manager self))"
    using ex act_exit_fills [OF gp _ that(2,3,4), of d x] that(1) s by simp
next
  assume s: "strat self = Momentum ms" and p: "ms_pos ms = Some pos" and a: "action d = ''exit''"
  have gp: "get_pos (strat self) = Some pos" using s p by simp
  have ex: "act self (SDict d) = act_exit self d" using a by (simp add: act_def)
  show "act self (SDict d) = (None, self)" if "price d = None"
    using ex act_exit_drops [OF gp, of d] that s by simp
  show "act self (SDict d) = (None, booked_exit self d pos x (Momentum (ms\<lparr>ms_pos := None\<rparr>)))"
    if "price d = Some x" "0 < entry pos" "0 < qty pos"
       "1 \<le> throttle_window (rm_cfg (risk_manager self))"
    using ex act_exit_fills [OF gp _ that(2,3,4), of d x] that(1) s by simp
qed

lemma scalping_after_book_eq:
  "scalping_after_book = (ScalpingStrategy_init demo_cfg)\<lparr>latest_bid := Some 100\<rparr>"
  by (simp add: scalping_after_book_def on_order_book_update_def top_of_book_def
        bids_only_book_def Let_def)

lemma scalping_engine_eq:
  "scalping_engine =
     \<lparr> ee_cfg = demo_cfg, strat = Scalping held_scalping, risk_manager = fresh_rm,
       budget = 1000,
       trade_log = [\<lparr>tr_symbol = ''BTC/USDT'', tr_action = ''ENTER'', tr_side = ''LONG'',
                     tr_price = 100, tr_qty = 1/10, tr_reason = ''smart_limit_entry'',
                     tr_pnl = None\<rparr>] \<rparr>"
  by (simp add: scalping_engine_def scalping_after_book_eq act_def act_enter_def order_size_def
        route_reason_def lower_def lower_char_def Let_def ExecutionEngine_init_def
        ScalpingStrategy_init_def held_scalping_def enter_sig_def demo_cfg_def)

lemma exit_run_scalping:
  "act quoted_engine (SDict exit_sig) =
     (None,
      \<lparr> ee_cfg = demo_cfg,
        strat = Scalping (held_scalping\<lparr>latest_ask := Some 105, ss_pos := None\<rparr>),
        risk_manager = fresh_rm\<lparr>trade_history := [1]\<rparr>,
        budget = 1000 + 1/2,
        trade_log = [\<lparr>tr_symbol = ''BTC/USDT'', tr_action = ''ENTER'', tr_side = ''LONG'',
                      tr_price = 100, tr_qty = 1/10, tr_reason = ''smart_limit_entry'',
                      tr_pnl = None\<rparr>,
                     \<lparr>tr_symbol = ''BTC/USDT'', tr_action = ''EXIT'', tr_side = ''LONG'',
                      tr_price = 105, tr_qty = 1/10, tr_reason = [],
                      tr_pnl = Some (1/2)\<rparr>] \<rparr>)"
  by (simp add: quoted_engine_def scalping_engine_eq act_def act_exit_def update_trade_history_def
        deque_append_def Let_def held_scalping_def exit_sig_def fresh_rm_def demo_cfg_def)

lemma exit_run_momentum:
  "act holding_engine (SDict exit_sig) =
     (None,
      \<lparr> ee_cfg = demo_cfg,
        strat = Momentum (holding_momentum\<lparr>ms_pos := None\<rparr>),
        risk_manager = fresh_rm\<lparr>trade_history := [1]\<rparr>,
        budget = 1001,
        trade_log = [\<lparr>tr_symbol = ''BTC/USDT'', tr_action = ''EXIT'', tr_side = ''LONG'',
                      tr_price = 110, tr_qty = 1/10, tr_reason = [],
                      tr_pnl = Some 1\<rparr>] \<rparr>)"
  by (simp add: holding_engine_def demo_engine_def ExecutionEngine_init_def act_def act_exit_def
        update_trade_history_def deque_append_def Let_def holding_momentum_def demo_momentum_def
        exit_sig_def fresh_rm_def demo_cfg_def)

theorem exit_price_and_booking_witness:
  "strat quoted_engine = Scalping (held_scalping\<lparr>latest_ask := Some 105\<rparr>)
   \<and> ss_pos (held_scalping\<lparr>latest_ask := Some 105\<rparr>) = Some \<lparr>side = ''LONG'', qty = 1/10, entry = 100\<rparr>
   \<and> latest_ask (held_scalping\<lparr>latest_ask := Some 105\<rparr>) = Some 105
   \<and> action exit_sig = ''exit'' \<and> price exit_sig = Some 110
   \<and> 1 \<le> throttle_window (rm_cfg (risk_manager quoted_engine))
   \<and> act quoted_engine (SDict exit_sig)
       = (None, booked_exit quoted_engine exit_sig \<lparr>side = ''LONG'', qty = 1/10, entry = 100\<rparr> 105
                  (Scalping (held_scalping\<lparr>latest_ask := Some 105, ss_pos := None\<rparr>)))
   \<and> budget (snd (act quoted_engine (SDict exit_sig))) = 1000 + 1/2
   \<and> map tr_price (trade_log (snd (act quoted_engine (SDict exit_sig)))) = [100, 105]
   \<and> get_pos (strat (snd (act quoted_engine (SDict exit_sig)))) = None
   \<and> strat holding_engine = Momentum holding_momentum
   \<and> ms_pos holding_momentum = Some \<lparr>side = ''LONG'', qty = 1/10, entry = 100\<rparr>
   \<and> 1 \<le> throttle_window (rm_cfg (risk_manager holding_engine))
   \<and> act holding_engine (SDict exit_sig)
       = (None, booked_exit holding_engine exit_sig \<lparr>side = ''LONG'', qty = 1/10, entry = 100\<rparr> 110
                  (Momentum (holding_momentum\<lparr>ms_pos := None\<rparr>)))
   \<and> budget (snd (act holding_engine (SDict exit_sig))) = 1001
   \<and> map tr_pnl (trade_log (snd (act holding_engine (SDict exit_sig)))) = [Some 1]
   \<and> get_pos (strat (snd (act holding_engine (SDict exit_sig)))) = None"
proof -
  let ?pos = "\<lparr>side = ''LONG'', qty = 1/10, entry = 100 :: real\<rparr>"
  let ?ss = "held_scalping\<lparr>latest_ask := Some 105\<rparr>"
  have q: "strat quoted_engine = Scalping ?ss"
    by (simp add: quoted_engine_def)
  have qp: "ss_pos ?ss = Some ?pos" and qa: "latest_ask ?ss = Some 105"
    by (simp_all add: held_scalping_def)
  have h: "strat holding_engine = Momentum holding_momentum"
    by (simp add: holding_engine_def)
  have hp: "ms_pos holding_momentum = Some ?pos"
    by (simp add: holding_momentum_def)
  have e: "action exit_sig = ''exit''" and pr: "price exit_sig = Some 110"
    by (simp_all add: exit_sig_def)
  have wq: "1 \<le> throttle_window (rm_cfg (risk_manager quoted_engine))"
    by (simp add: quoted_engine_def scalping_engine_eq fresh_rm_def demo_cfg_def)
  have wh: "1 \<le> throttle_window (rm_cfg (risk_manager holding_engine))"
    by (simp add: holding_engine_def demo_engine_def ExecutionEngine_init_def fresh_rm_def demo_cfg_def)
  have t1: "act quoted_engine (SDict exit_sig)
       = (None, booked_exit quoted_engine exit_sig ?pos 105
                  (Scalping (held_scalping\<lparr>latest_ask := Some 105, ss_pos := None\<rparr>)))"
    using exit_price_and_booking [of quoted_engine ?ss ?pos exit_sig 105 holding_momentum]
      q qp qa e wq by simp
  have t2: "act holding_engine (SDict exit_sig)
       = (None, booked_exit holding_engine exit_sig ?pos 110
                  (Momentum (holding_momentum\<lparr>ms_pos := None\<rparr>)))"
    using exit_price_and_booking [of holding_engine held_scalping ?pos exit_sig 110 holding_momentum]
      h hp pr e wh by simp
  have b1: "budget (snd (act quoted_engine (SDict exit_sig))) = 1000 + 1/2"
    and l1: "map tr_price (trade_log (snd (act quoted_engine (SDict exit_sig)))) = [100, 105]"
    and g1: "get_pos (strat (snd (act quoted_engine (SDict exit_sig)))) = None"
    by (simp_all add: exit_run_scalping)
  have b2: "budget (snd (act holding_engine (SDict exit_sig))) = 1001"
    and l2: "map tr_pnl (trade_log (snd (act holding_engine (SDict exit_sig)))) = [Some 1]"
    and g2: "get_pos (strat (snd (act holding_engine (SDict exit_sig)))) = None"
    by (simp_all add: exit_run_momentum)
  show ?thesis
    by (intro conjI) (fact q qp qa e pr wq t1 b1 l1 g1 h hp wh t2 b2 l2 g2)+
qed

text \<open>
  C4 as stated fails for a Scalping strategy that has seen no ask: after a book with
  bids only and an entry at the bid 100, the exit signal carrying the price 110 changes
  nothing, and the position stays open.
\<close>

theorem exit_without_ask_counterexample:
  "strat scalping_engine = Scalping held_scalping
   \<and> ss_pos held_scalping = Some \<lparr>side = ''LONG'', qty = 1/10, entry = 100\<rparr>
   \<and> latest_ask held_scalping = None
   \<and> action exit_sig = ''exit'' \<and> price exit_sig = Some 110
   \<and> act scalping_engine (SDict exit_sig) = (None, scalping_engine)"
  by (simp add: scalping_engine_eq act_def act_exit_def held_scalping_def exit_sig_def)

subsection \<open>The win-rate throttle\<close>

lemma throttle_trips:
  assumes "has_log self" "\<not> (action d = ''enter_long'' \<and> sent = ''Bearish'')"
    and "starting_budget self \<noteq> 0"
    and "\<not> (cb - starting_budget self) / starting_budget self < - daily_drawdown_pct (rm_cfg self)"
    and "\<not> trading_paused_throttle self"
    and "int (length (trade_history self)) = throttle_window (rm_cfg self)"
    and "1 \<le> throttle_window (rm_cfg self)"
    and "win_rate_of (trade_history self) < throttle_threshold_pct (rm_cfg self)"
  shows "approve_trade self sent (SDict d) cb = Inr (False, self\<lparr>trading_paused_throttle := True\<rparr>)"
proof -
  have "length (trade_history self) \<noteq> 0" using assms(6,7) by auto
  then show ?thesis
    using assms by (auto simp: approve_trade_def Let_def)
qed

lemma throttle_rejects_while_paused:
  assumes "has_log self" "\<not> (action d = ''enter_long'' \<and> sent = ''Bearish'')"
    and "starting_budget self \<noteq> 0"
    and "\<not> (cb - starting_budget self) / starting_budget self < - daily_drawdown_pct (rm_cfg self)"
    and "trading_paused_throttle self"
  shows "approve_trade self sent (SDict d) cb = Inr (False, self)"
  using assms by (auto simp: approve_trade_def Let_def)

lemma approve_never_approves_while_paused:
  "trading_paused_throttle self \<Longrightarrow> approve_trade self sent sg cb \<noteq> Inr (True, self')"
  by (auto simp: approve_trade_def Let_def split: sigval.splits)

lemma approve_never_lifts_throttle:
  "trading_paused_throttle self \<Longrightarrow> approve_trade self sent sg cb = Inr (ok, self') \<Longrightarrow>
   trading_paused_throttle self'"
  by (auto simp: approve_trade_def Let_def split: if_splits sigval.splits)

lemma update_lifts_throttle:
  assumes "trading_paused_throttle self" "1 \<le> throttle_window (rm_cfg self)"
    and "h' = deque_append (nat (throttle_window (rm_cfg self))) (trade_history self) (if pnl > 0 then 1 else 0)"
    and "win_rate_of h' \<ge> throttle_threshold_pct (rm_cfg self)"
  shows "update_trade_history self pnl = (None, self\<lparr>trade_history := h', trading_paused_throttle := False\<rparr>)"
proof -
  have "length h' \<noteq> 0"
    using assms(2,3) by (auto simp: deque_append_def Let_def)
  then show ?thesis
    using assms(1,3,4) by (simp add: update_trade_history_def Let_def)
qed

lemma update_keeps_throttle_when_low:
  assumes "trading_paused_throttle self" "1 \<le> throttle_window (rm_cfg self)"
    and "h' = deque_append (nat (throttle_window (rm_cfg self))) (trade_history self) (if pnl > 0 then 1 else 0)"
    and "win_rate_of h' < throttle_threshold_pct (rm_cfg self)"
  shows "update_trade_history self pnl = (None, self\<lparr>trade_history := h'\<rparr>)"
proof -
  have "length h' \<noteq> 0"
    using assms(2,3) by (auto simp: deque_append_def Let_def)
  then show ?thesis
    using assms(1,3,4) by (simp add: update_trade_history_def Let_def)
qed

lemma approve_step_keeps_throttle:
  "trading_paused_throttle self \<Longrightarrow> trading_paused_throttle (rm_step self (Approve sent sg cb))"
  by (auto split: sum.splits dest: approve_never_lifts_throttle)

text \<open>
  C8: the win-rate throttle. A call of \<open>approve_trade\<close> reaches the throttle check when
  it has passed the logging line, the sentiment veto and the drawdown check. With a
  window \<open>W \<ge> 1\<close> holding \<open>W\<close> outcomes of mean below the threshold, such a call returns
  False and sets the throttle flag. While the flag is set, such a call returns False and
  changes nothing, and no call approves. A call of \<open>update_trade_history\<close> whose appended
  outcome (the oldest leaving a full window) brings the mean to the threshold or above
  clears the flag, and no call of \<open>approve_trade\<close> clears it.
\<close>

theorem throttle_breaker:
  "(has_log self \<and> \<not> (action d = ''enter_long'' \<and> sent = ''Bearish'')
      \<and> starting_budget self \<noteq> 0
      \<and> \<not> (cb - starting_budget self) / starting_budget self < - daily_drawdown_pct (rm_cfg self)
      \<and> \<not> trading_paused_throttle self
      \<and> 1 \<le> throttle_window (rm_cfg self)
      \<and> int (length (trade_history self)) = throttle_window (rm_cfg self)
      \<and> real (sum_list (trade_history self)) / real (length (trade_history self))
          < throttle_threshold_pct (rm_cfg self)
     \<longrightarrow> approve_trade self sent (SDict d) cb
           = Inr (False, self\<lparr>trading_paused_throttle := True\<rparr>))
   \<and> (has_log self \<and> \<not> (action d = ''enter_long'' \<and> sent = ''Bearish'')
      \<and> starting_budget self \<noteq> 0
      \<and> \<not> (cb - starting_budget self) / starting_budget self < - daily_drawdown_pct (rm_cfg self)
      \<and> trading_paused_throttle self
     \<longrightarrow> approve_trade self sent (SDict d) cb = Inr (False, self))
   \<and> (trading_paused_throttle self \<longrightarrow> approve_trade self sent sg cb \<noteq> Inr (True, self'))
   \<and> (trading_paused_throttle self \<and> 1 \<le> throttle_window (rm_cfg self)
      \<and> throttle_threshold_pct (rm_cfg self)
          \<le> real (sum_list (drop (length (trade_history self @ [if 0 < pnl then 1 else 0])
                                     - nat (throttle_window (rm_cfg self)))
                                (trade_history self @ [if 0 < pnl then 1 else 0])))
            / real (length (drop (length (trade_history self @ [if 0 < pnl then 1 else 0])
                                     - nat (throttle_window (rm_cfg self)))
                                (trade_history self @ [if 0 < pnl then 1 else 0])))
     \<longrightarrow> update_trade_history self pnl
           = (None, self\<lparr>trade_history :=
                             drop (length (trade_history self @ [if 0 < pnl then 1 else 0])
                                     - nat (throttle_window (rm_cfg self)))
                                  (trade_history self @ [if 0 < pnl then 1 else 0]),
                           trading_paused_throttle := False\<rparr>))
   \<and> (trading_paused_throttle self
        \<longrightarrow> trading_paused_throttle (rm_step self (Approve sent sg cb)))"
proof (intro conjI impI; (elim conjE)?)
  assume "has_log self" "\<not> (action d = ''enter_long'' \<and> sent = ''Bearish'')"
    "starting_budget self \<noteq> 0"
    "\<not> (cb - starting_budget self) / starting_budget self < - daily_drawdown_pct (rm_cfg self)"
    "\<not> trading_paused_throttle self" "1 \<le> throttle_window (rm_cfg self)"
    "int (length (trade_history self)) = throttle_window (rm_cfg self)"
    "real (sum_list (trade_history self)) / real (length (trade_history self))
       < throttle_threshold_pct (rm_cfg self)"
  then show "approve_trade self sent (SDict d) cb = Inr (False, self\<lparr>trading_paused_throttle := True\<rparr>)"
    by (intro throttle_trips) (simp_all add: win_rate_of_def)
next
  assume "has_log self" "\<not> (action d = ''enter_long'' \<and> sent = ''Bearish'')"
    "starting_budget self \<noteq> 0"
    "\<not> (cb - starting_budget self) / starting_budget self < - daily_drawdown_pct (rm_cfg self)"
    "trading_paused_throttle self"
  then show "approve_trade self sent (SDict d) cb = Inr (False, self)"
    by (rule throttle_rejects_while_paused)
next
  assume "trading_paused_throttle self"
  then show "approve_trade self sent sg cb \<noteq> Inr (True, self')"
    by (rule approve_never_approves_while_paused)
next
  let ?h = "drop (length (trade_history self @ [if 0 < pnl then 1 else 0])
                    - nat (throttle_window (rm_cfg self)))
                 (trade_history self @ [if 0 < pnl then 1 else 0])"
  assume p: "trading_paused_throttle self" and w: "1 \<le> throttle_window (rm_cfg self)"
    and r: "throttle_threshold_pct (rm_cfg self) \<le> real (sum_list ?h) / real (length ?h)"
  have h: "?h = deque_append (nat (throttle_window (rm_cfg self))) (trade_history self)
                  (if pnl > 0 then 1 else 0)"
    by (simp add: deque_append_def Let_def)
  show "update_trade_history self pnl = (None, self\<lparr>trade_history := ?h, trading_paused_throttle := False\<rparr>)"
    using update_lifts_throttle [OF p w h] r by (simp add: win_rate_of_def)
next
  assume "trading_paused_throttle self"
  then show "trading_paused_throttle (rm_step self (Approve sent sg cb))"
    by (rule approve_step_keeps_throttle)
qed

theorem throttle_breaker_witness:
  "has_log losing_rm \<and> starting_budget losing_rm \<noteq> 0
   \<and> \<not> (1000 - starting_budget losing_rm) / starting_budget losing_rm
          < - daily_drawdown_pct (rm_cfg losing_rm)
   \<and> \<not> trading_paused_throttle losing_rm
   \<and> 1 \<le> throttle_window (rm_cfg losing_rm)
   \<and> int (length (trade_history losing_rm)) = throttle_window (rm_cfg losing_rm)
   \<and> real (sum_list (trade_history losing_rm)) / real (length (trade_history losing_rm))
       < throttle_threshold_pct (rm_cfg losing_rm)
   \<and> approve_trade losing_rm ''Neutral'' (SDict exit_sig) 1000 = Inr (False, throttled_rm)
   \<and> trading_paused_throttle throttled_rm
   \<and> approve_trade throttled_rm ''Neutral'' (SDict exit_sig) 1000 = Inr (False, throttled_rm)
   \<and> approve_trade throttled_rm ''Bullish'' (SDict enter_sig) 1000 \<noteq> Inr (True, throttled_rm)
   \<and> update_trade_history throttled_rm 5
       = (None, throttled_rm\<lparr>trade_history := [0, 1], trading_paused_throttle := False\<rparr>)
   \<and> trading_paused_throttle (rm_step throttled_rm (Approve ''Neutral'' (SDict exit_sig) 1000))"
  using throttle_breaker [of losing_rm exit_sig "''Neutral''" 1000 "SDict exit_sig" losing_rm 5]
        throttle_breaker [of throttled_rm exit_sig "''Neutral''" 1000 "SDict enter_sig" throttled_rm 5]
        throttle_breaker [of throttled_rm exit_sig "''Bullish''" 1000 "SDict enter_sig" throttled_rm 5]
  by (simp add: throttled_rm_def losing_rm_def logged_rm_def fresh_rm_def demo_cfg_def exit_sig_def)

subsection \<open>Scalping signals\<close>

lemma generate_signal_short:
  "length (candles self) < 22 \<Longrightarrow> generate_signal ta self = None"
  by (simp add: generate_signal_def)

lemma last_close:
  assumes "22 \<le> length (candles self)"
  shows "closes self ! (length (closes self) - 1) = c_close (snd (last (candles self)))"
proof -
  have ne: "candles self \<noteq> []" using assms by auto
  have "closes self ! (length (candles self) - 1)
          = c_close (snd (candles self ! (length (candles self) - 1)))"
    unfolding closes_def using ne by (intro nth_map) simp
  then show ?thesis
    using ne by (simp add: closes_def last_conv_nth)
qed

lemma generate_signal_buy:
  assumes "22 \<le> length (candles self)"
    and "(nan_lt (ema9 ta (closes self) (length (candles self) - 2))
                 (ema21 ta (closes self) (length (candles self) - 2))
          \<and> nan_lt (ema21 ta (closes self) (length (candles self) - 1))
                   (ema9 ta (closes self) (length (candles self) - 1)))
         \<or> nan_lt (rsi14 ta (closes self) (length (candles self) - 1))
                  (Some (rsi_oversold (ss_cfg self)))"
  shows "generate_signal ta self =
           Some \<lparr>action = ''enter_long'',
                 price = Some (c_close (snd (last (candles self)))), reason = None\<rparr>"
proof -
  have n: "length (closes self) = length (candles self)" by (simp add: closes_def)
  have "\<not> length (candles self) < 22" using assms(1) by simp
  then show ?thesis
    using assms(2) last_close [OF assms(1)]
    by (simp add: generate_signal_def Let_def n)
qed

text \<open>
  C9: \<open>generate_signal\<close> returns no signal while fewer than 22 candles are in the frame.
  With at least 22, if EMA_9 is below EMA_21 on the previous row and above it on the last
  row, or RSI_14 on the last row is below the oversold threshold, it returns the
  enter_long signal priced at the close of the last candle, whatever the sell condition
  is: the buy condition is tested first and one signal at most is returned. The
  indicator columns are those of the library, taken as the parameter \<open>ta\<close>.
\<close>

theorem generate_signal_decision:
  "(length (candles self) < 22 \<longrightarrow> generate_signal ta self = None)
   \<and> (22 \<le> length (candles self)
      \<and> ((nan_lt (ema9 ta (closes self) (length (candles self) - 2))
                  (ema21 ta (closes self) (length (candles self) - 2))
           \<and> nan_lt (ema21 ta (closes self) (length (candles self) - 1))
                    (ema9 ta (closes self) (length (candles self) - 1)))
          \<or> nan_lt (rsi14 ta (closes self) (length (candles self) - 1))
                   (Some (rsi_oversold (ss_cfg self))))
      \<longrightarrow> generate_signal ta self =
           Some \<lparr>action = ''enter_long'',
                 price = Some (c_close (snd (last (candles self)))), reason = None\<rparr>)"
  using generate_signal_short generate_signal_buy by blast


lemma closes_crossing: "closes crossing_scalping = falling_closes @ [200]"
  by (simp add: closes_def crossing_scalping_def frame_of_def falling_closes_def flat_candle_def upt_rec)

lemma length_crossing: "length (candles crossing_scalping) = 22"
  by (simp add: crossing_scalping_def frame_of_def falling_closes_def)

lemma length_short: "length (candles short_scalping) = 21"
  by (simp add: short_scalping_def frame_of_def falling_closes_def)

lemma ema_prev: "nan_lt (seeded_ema 9 (falling_closes @ [200]) 20) (seeded_ema 21 (falling_closes @ [200]) 20)"
  by (simp add: seeded_ema_def falling_closes_def nan_lt_def)

lemma ema_last: "nan_lt (seeded_ema 21 (falling_closes @ [200]) 21) (seeded_ema 9 (falling_closes @ [200]) 21)"
  by (simp add: seeded_ema_def falling_closes_def nan_lt_def)


lemma last_crossing: "c_close (snd (last (candles crossing_scalping))) = 200"
  by (simp add: crossing_scalping_def frame_of_def falling_closes_def flat_candle_def upt_rec)

theorem generate_signal_decision_witness:
  "length (candles short_scalping) < 22
   \<and> generate_signal demo_ta short_scalping = None
   \<and> 22 \<le> length (candles crossing_scalping)
   \<and> nan_lt (ema9 demo_ta (closes crossing_scalping) 20) (ema21 demo_ta (closes crossing_scalping) 20)
   \<and> nan_lt (ema21 demo_ta (closes crossing_scalping) 21) (ema9 demo_ta (closes crossing_scalping) 21)
   \<and> generate_signal demo_ta crossing_scalping
       = Some \<lparr>action = ''enter_long'', price = Some 200, reason = None\<rparr>"
  using generate_signal_decision [of short_scalping demo_ta]
        generate_signal_decision [of crossing_scalping demo_ta]
        ema_prev ema_last
  by (simp add: length_short length_crossing closes_crossing last_crossing demo_ta_def)

subsection \<open>Routing of ticker payloads\<close>

lemma on_tick_update_no_timestamp:
  "map fst td = [''symbol'', ''price'', ''volume''] \<Longrightarrow> on_tick_update ss td = (Inr False, ss)"
proof -
  assume k: "map fst td = [''symbol'', ''price'', ''volume'']"
  have "''timestamp'' \<notin> set (map fst td)" unfolding k by simp
  then have "map_of td ''timestamp'' = None"
    by (simp add: map_of_eq_None_iff)
  then show ?thesis
    by (simp add: on_tick_update_def dict_get_def Let_def)
qed

lemma with_strat_same: "strat (engine m) = st \<Longrightarrow> with_strat (emit m e) st = emit m e"
  by (auto simp: with_strat_def emit_def)

lemma emit_trace: "emit m e = m\<lparr>trace := trace m @ [e]\<rparr>"
  by (simp add: emit_def)

lemma no_new_events:
  "m' = m \<Longrightarrow> \<exists>evs. m' = m\<lparr>trace := trace m @ evs\<rparr> \<and> list_all is_tick_event evs"
  by (rule exI [of _ "[]"]) simp

lemma route_ticks_trace:
  "\<exists>evs. snd (route_ticks m ticks) = m\<lparr>trace := trace m @ evs\<rparr> \<and> list_all is_tick_event evs"
proof (induction ticks arbitrary: m)
  case Nil
  show ?case by (rule no_new_events) simp
next
  case (Cons tick rest)
  show ?case
  proof (cases tick)
    case (PDict t)
    let ?td = "[(''symbol'', dict_get t ''i'' PNone), (''price'', dict_get t ''a'' PNone),
                (''volume'', dict_get t ''v'' PNone)]"
    show ?thesis
    proof (cases "strat (engine m)")
      case (Momentum ms)
      show ?thesis by (rule no_new_events) (simp add: PDict Momentum)
    next
      case (Scalping ss)
      let ?m1 = "emit m (OnTickUpdate ?td)"
      have r: "on_tick_update ss ?td = (Inr False, ss)"
        by (rule on_tick_update_no_timestamp) simp
      have step: "route_ticks m (tick # rest) = route_ticks ?m1 rest"
        using PDict Scalping r by (simp add: Let_def with_strat_same)
      obtain evs where e: "snd (route_ticks ?m1 rest) = ?m1\<lparr>trace := trace ?m1 @ evs\<rparr>"
        and a: "list_all is_tick_event evs"
        using Cons.IH [of ?m1] by blast
      have "snd (route_ticks m (tick # rest)) = m\<lparr>trace := trace m @ (OnTickUpdate ?td # evs)\<rparr>"
        using step e by (simp add: emit_def)
      moreover have "list_all is_tick_event (OnTickUpdate ?td # evs)"
        using a by (simp add: is_tick_event_def)
      ultimately show ?thesis by blast
    qed
  qed (rule no_new_events, simp)+
qed


lemma route_ticks_momentum:
  "strat (engine m) = Momentum ms \<Longrightarrow> snd (route_ticks m ticks) = m"
proof (cases ticks)
  case Nil
  then show ?thesis by simp
next
  case (Cons tick rest)
  assume "strat (engine m) = Momentum ms"
  then show ?thesis using Cons by (cases tick) simp_all
qed

lemma ticker_channel_route:
  assumes "ticker_channel data"
  shows "snd (route_data pf m data) = m
         \<or> (\<exists>ticks. snd (route_data pf m data) = snd (route_ticks m ticks))"
proof -
  obtain d where d: "data = PDict d"
    using assms by (cases data) (simp_all add: ticker_channel_def py_get_def)
  obtain r where r: "dict_get d ''result'' (PDict []) = PDict r"
    using assms d by (cases "dict_get d ''result'' (PDict [])") (simp_all add: ticker_channel_def py_get_def)
  obtain ch where ch: "dict_get r ''channel'' (PStr []) = PStr ch" and p: "prefix ''ticker.'' ch"
    using assms d r
    by (cases "dict_get r ''channel'' (PStr [])") (simp_all add: ticker_channel_def py_get_def)
  show ?thesis
  proof (cases "map_of r ''data''")
    case None
    then show ?thesis
      by (simp add: route_data_def py_get_def d r ch)
  next
    case (Some payload)
    show ?thesis
    proof (cases "py_iter payload")
      case (Inl e)
      then show ?thesis
        using Some p by (simp add: route_data_def py_get_def d r ch)
    next
      case (Inr ticks)
      have "snd (route_data pf m data) = m \<or> snd (route_data pf m data) = snd (route_ticks m ticks)"
        using Some p Inr by (simp add: route_data_def py_get_def d r ch)
      then show ?thesis by blast
    qed
  qed
qed

lemma ticker_events_only:
  assumes "ticker_channel data"
  shows "\<exists>evs. snd (route_data pf m data) = m\<lparr>trace := trace m @ evs\<rparr> \<and> list_all is_tick_event evs"
  using ticker_channel_route [OF assms, of pf m] route_ticks_trace no_new_events
  by metis

lemma ticker_momentum:
  assumes "ticker_channel data" "strat (engine m) = Momentum ms"
  shows "snd (route_data pf m data) = m"
  using ticker_channel_route [OF assms(1), of pf m] route_ticks_momentum [OF assms(2)]
  by metis

text \<open>
  C1: ticker payloads never produce a trade. The router builds each tick dict with the
  keys symbol, price and volume only, and for such a dict \<open>on_tick_update\<close> of the
  Scalping strategy returns False and leaves the strategy as it was. For a payload on a
  ticker channel, whatever else it holds, the manager after \<open>_route_data\<close> is the manager
  before it with \<open>on_tick_update\<close> events added to the trace: \<open>approve_trade\<close> and \<open>act\<close>
  are not called, and budget, position, trade log and risk state are unchanged. With
  the Momentum strategy, which has no \<open>on_tick_update\<close>, not even that call happens.
\<close>

theorem ticker_payload_never_trades:
  "(map fst td = [''symbol'', ''price'', ''volume''] \<longrightarrow> on_tick_update ss td = (Inr False, ss))
   \<and> (ticker_channel data \<longrightarrow>
        (\<exists>evs. snd (route_data pf m data) = m\<lparr>trace := trace m @ evs\<rparr>
               \<and> list_all is_tick_event evs))
   \<and> (ticker_channel data \<and> strat (engine m) = Momentum ms \<longrightarrow> snd (route_data pf m data) = m)"
proof (intro conjI impI)
  show "on_tick_update ss td = (Inr False, ss)" if "map fst td = [''symbol'', ''price'', ''volume'']"
    using that by (rule on_tick_update_no_timestamp)
  show "\<exists>evs. snd (route_data pf m data) = m\<lparr>trace := trace m @ evs\<rparr> \<and> list_all is_tick_event evs"
    if "ticker_channel data"
    using that by (rule ticker_events_only)
  show "snd (route_data pf m data) = m"
    if "ticker_channel data \<and> strat (engine m) = Momentum ms"
    using that ticker_momentum by blast
qed

lemma route_scalping_run:
  "route_data no_float scalping_ws ticker_msg =
     (None, scalping_ws\<lparr>trace :=
        [OnTickUpdate [(''symbol'', PStr ''BTC_USDT''), (''price'', PStr ''100.5''), (''volume'', PStr ''12'')],
         OnTickUpdate [(''symbol'', PStr ''BTC_USDT''), (''price'', PNum 101), (''volume'', PNone)]]\<rparr>)"
  by (simp add: route_data_def py_get_def dict_get_def ticker_msg_def scalping_ws_def
        ExecutionEngine_init_def on_tick_update_def Let_def emit_def with_strat_def)

lemma route_momentum_run:
  "route_data no_float momentum_ws ticker_msg = (Some AttributeError, momentum_ws)"
  by (simp add: route_data_def py_get_def dict_get_def ticker_msg_def momentum_ws_def
        demo_engine_def ExecutionEngine_init_def Let_def)

theorem ticker_payload_never_trades_witness:
  "ticker_channel ticker_msg
   \<and> on_tick_update (ScalpingStrategy_init demo_cfg)
         [(''symbol'', PStr ''BTC_USDT''), (''price'', PStr ''100.5''), (''volume'', PStr ''12'')]
       = (Inr False, ScalpingStrategy_init demo_cfg)
   \<and> route_data no_float scalping_ws ticker_msg =
       (None, scalping_ws\<lparr>trace :=
          [OnTickUpdate [(''symbol'', PStr ''BTC_USDT''), (''price'', PStr ''100.5''), (''volume'', PStr ''12'')],
           OnTickUpdate [(''symbol'', PStr ''BTC_USDT''), (''price'', PNum 101), (''volume'', PNone)]]\<rparr>)
   \<and> (\<exists>evs. snd (route_data no_float scalping_ws ticker_msg) = scalping_ws\<lparr>trace := trace scalping_ws @ evs\<rparr>
             \<and> list_all is_tick_event evs)
   \<and> strat (engine momentum_ws) = Momentum demo_momentum
   \<and> route_data no_float momentum_ws ticker_msg = (Some AttributeError, momentum_ws)"
proof -
  have t: "ticker_channel ticker_msg"
    by (simp add: ticker_channel_def py_get_def dict_get_def ticker_msg_def)
  have s: "strat (engine momentum_ws) = Momentum demo_momentum"
    by (simp add: momentum_ws_def demo_engine_def ExecutionEngine_init_def)
  show ?thesis
    using t s route_scalping_run route_momentum_run
      ticker_payload_never_trades
        [of "[(''symbol'', PStr ''BTC_USDT''), (''price'', PStr ''100.5''), (''volume'', PStr ''12'')]"
            "ScalpingStrategy_init demo_cfg" ticker_msg no_float scalping_ws demo_momentum]
    by simp
qed

subsection \<open>The listen loop and heartbeats\<close>

lemma sends_append: "sends (xs @ ys) = sends xs @ sends ys"
  by (induction xs rule: sends.induct) simp_all

lemma tick_events_send_nothing: "list_all is_tick_event evs \<Longrightarrow> sends evs = []"
proof (induction evs)
  case Nil
  then show ?case by simp
next
  case (Cons e evs)
  then show ?case by (cases e) (simp_all add: is_tick_event_def)
qed

lemma route_ticks_sends:
  "\<exists>evs. trace (snd (route_ticks m ticks)) = trace m @ evs \<and> sends evs = []"
proof -
  obtain evs where "snd (route_ticks m ticks) = m\<lparr>trace := trace m @ evs\<rparr>"
    and "list_all is_tick_event evs"
    using route_ticks_trace by blast
  then have "trace (snd (route_ticks m ticks)) = trace m @ evs \<and> sends evs = []"
    by (simp add: tick_events_send_nothing)
  then show ?thesis by blast
qed

lemma quiet_same: "trace m' = trace m \<Longrightarrow> \<exists>evs. trace m' = trace m @ evs \<and> sends evs = []"
  by (rule exI [of _ "[]"]) simp

lemma route_book_sends:
  "\<exists>evs. trace (snd (route_book pf m payload)) = trace m @ evs \<and> sends evs = []"
proof (cases "py_index0 payload")
  case (Inl e)
  show ?thesis by (rule quiet_same) (simp add: route_book_def Inl)
next
  case (Inr ob)
  show ?thesis
  proof (cases "strat (engine m)")
    case (Momentum ms)
    show ?thesis by (rule quiet_same) (simp add: route_book_def Inr Momentum)
  next
    case (Scalping ss)
    have "trace (snd (route_book pf m payload)) = trace m @ [OnOrderBookUpdate ob]"
      by (simp add: route_book_def Inr Scalping Let_def with_strat_def emit_def)
    moreover have "sends [OnOrderBookUpdate ob] = []" by simp
    ultimately show ?thesis by blast
  qed
qed

lemma route_data_sends:
  "\<exists>evs. trace (snd (route_data pf m data)) = trace m @ evs \<and> sends evs = []"
proof -
  have "snd (route_data pf m data) = m
        \<or> (\<exists>ticks. snd (route_data pf m data) = snd (route_ticks m ticks))
        \<or> (\<exists>payload. snd (route_data pf m data) = snd (route_book pf m payload))"
    by (auto simp: route_data_def split: sum.splits if_splits)
  then show ?thesis
    using route_ticks_sends [of m] route_book_sends [of pf m] quiet_same [of m m]
    by (metis)
qed


lemma sends_nothing_iff: "sends evs = [] \<longleftrightarrow> (\<forall>v. WsSend v \<notin> set evs)"
  by (induction evs rule: sends.induct) auto

lemma is_heartbeat_iff:
  "is_heartbeat msg \<longleftrightarrow>
     (\<exists>d. msg = Text (PDict d) \<and> map_of d ''method'' = Some (PStr ''public/heartbeat''))"
proof (cases msg)
  case Undecodable
  then show ?thesis by (simp add: is_heartbeat_def)
next
  case (Text v)
  then show ?thesis
    by (cases v) (auto simp: is_heartbeat_def dict_get_def split: option.splits)
qed

lemma listen_step_heartbeat:
  assumes "snd f = Text (PDict d)" "map_of d ''method'' = Some (PStr ''public/heartbeat'')"
  shows "listen_step pf m f =
     (None, m\<lparr>trace := trace m @
        [WsSend (PDict [(''id'', (case map_of d ''id'' of None \<Rightarrow> PNone | Some i \<Rightarrow> i)),
                        (''method'', PStr ''public/respond-heartbeat'')])]\<rparr>)"
  using assms
  by (simp add: listen_step_def json_loads_def py_get_def dict_get_def emit_def)

lemma listen_step_echo:
  assumes "is_heartbeat (snd f)"
  shows "listen_step pf m f = (None, m\<lparr>trace := trace m @ [WsSend (heartbeat_echo (snd f))]\<rparr>)"
proof -
  obtain d where d: "snd f = Text (PDict d)"
    and h: "map_of d ''method'' = Some (PStr ''public/heartbeat'')"
    using assms is_heartbeat_iff by blast
  show ?thesis
    using listen_step_heartbeat [OF d h] by (simp add: heartbeat_echo_def d)
qed

lemma listen_step_other:
  assumes "\<not> is_heartbeat (snd f)"
  shows "\<exists>evs. trace (snd (listen_step pf m f)) = trace m @ evs \<and> sends evs = []"
proof (cases "snd f")
  case Undecodable
  show ?thesis by (rule quiet_same) (simp add: listen_step_def json_loads_def Undecodable)
next
  case (Text v)
  show ?thesis
  proof (cases "\<exists>d. v = PDict d")
    case False
    then have "py_get v ''method'' PNone = Inl AttributeError"
      by (cases v) (simp_all add: py_get_def)
    then show ?thesis
      by (intro quiet_same) (simp add: listen_step_def json_loads_def Text)
  next
    case True
    then obtain d where d: "v = PDict d" by blast
    have nh: "dict_get d ''method'' PNone \<noteq> PStr ''public/heartbeat''"
      using assms Text d by (simp add: is_heartbeat_def)
    show ?thesis
    proof (cases "refresh_sentiment (fst f) (ai_analyzer m)")
      case (Inl e)
      have "trace (snd (listen_step pf m f)) = trace m @ [RefreshSentiment]"
        using nh Inl by (simp add: listen_step_def json_loads_def py_get_def Text d emit_def)
      moreover have "sends [RefreshSentiment] = []" by simp
      ultimately show ?thesis by blast
    next
      case (Inr a)
      let ?m1 = "(emit m RefreshSentiment)\<lparr>ai_analyzer := a\<rparr>"
      have step: "listen_step pf m f = route_data pf ?m1 v"
        using nh Inr by (simp add: listen_step_def json_loads_def py_get_def Text d)
      obtain evs where e: "trace (snd (route_data pf ?m1 v)) = trace ?m1 @ evs" and s: "sends evs = []"
        using route_data_sends by blast
      have "trace (snd (listen_step pf m f)) = trace m @ (RefreshSentiment # evs)"
        using step e by (simp add: emit_def)
      moreover have "sends (RefreshSentiment # evs) = []" using s by simp
      ultimately show ?thesis by blast
    qed
  qed
qed

lemma listen_loop_sends:
  "sends (trace (snd (listen_loop pf m fs))) =
     sends (trace m) @
     map (\<lambda>f. heartbeat_echo (snd f)) (filter (\<lambda>f. is_heartbeat (snd f)) (taken pf m fs))"
proof (induction fs arbitrary: m)
  case Nil
  then show ?case by simp
next
  case (Cons f fs)
  show ?case
  proof (cases "is_heartbeat (snd f)")
    case True
    let ?m1 = "m\<lparr>trace := trace m @ [WsSend (heartbeat_echo (snd f))]\<rparr>"
    have st: "listen_step pf m f = (None, ?m1)"
      using True by (rule listen_step_echo)
    have "sends (trace ?m1) = sends (trace m) @ [heartbeat_echo (snd f)]"
      by (simp add: sends_append)
    then show ?thesis
      using True st Cons.IH [of ?m1] by (simp add: Let_def)
  next
    case False
    obtain evs where e: "trace (snd (listen_step pf m f)) = trace m @ evs" and s: "sends evs = []"
      using listen_step_other [OF False] by blast
    have same: "sends (trace (snd (listen_step pf m f))) = sends (trace m)"
      using e s by (simp add: sends_append)
    show ?thesis
    proof (cases "fst (listen_step pf m f)")
      case None
      then show ?thesis
        using False same Cons.IH [of "snd (listen_step pf m f)"] by (simp add: Let_def)
    next
      case (Some err)
      then show ?thesis
        using False same by (simp add: Let_def)
    qed
  qed
qed

lemma listen_sends:
  "sends (trace (snd (listen pf m w0 frames))) =
     sends (trace m) @
     map (\<lambda>f. heartbeat_echo (snd f))
         (filter (\<lambda>f. is_heartbeat (snd f)) (taken_by_listen pf m w0 frames))"
proof (cases "refresh_sentiment w0 (ai_analyzer m)")
  case (Inl e)
  then show ?thesis
    by (simp add: listen_def taken_by_listen_def emit_def sends_append)
next
  case (Inr a)
  let ?m0 = "(emit m RefreshSentiment)\<lparr>ai_analyzer := a\<rparr>"
  have "sends (trace ?m0) = sends (trace m)"
    by (simp add: emit_def sends_append)
  then show ?thesis
    using Inr listen_loop_sends [of pf ?m0 frames] by (simp add: listen_def taken_by_listen_def)
qed

text \<open>
  C10: heartbeats are answered first and only heartbeats are answered. For a frame that
  decodes to a dict whose method is "public/heartbeat", the body of the loop does one
  thing: it sends the dict made of the id found in the frame (null when the frame has
  none) and the method "public/respond-heartbeat". There is no sentiment refresh, no
  routing and no other change of state, and the later frames are processed after that
  send. For any other frame the loop body sends nothing. Over a whole run of \<open>listen\<close>,
  the messages sent are exactly the responses to the heartbeat frames taken from the
  stream, one each, in order.
\<close>

theorem heartbeat_answered_first:
  "(snd f = Text (PDict d) \<and> map_of d ''method'' = Some (PStr ''public/heartbeat'') \<longrightarrow>
      listen_step pf m f =
        (None, m\<lparr>trace := trace m @
           [WsSend (PDict [(''id'', (case map_of d ''id'' of None \<Rightarrow> PNone | Some i \<Rightarrow> i)),
                           (''method'', PStr ''public/respond-heartbeat'')])]\<rparr>)
      \<and> listen_loop pf m (f # fs) =
          listen_loop pf
            (m\<lparr>trace := trace m @
               [WsSend (PDict [(''id'', (case map_of d ''id'' of None \<Rightarrow> PNone | Some i \<Rightarrow> i)),
                               (''method'', PStr ''public/respond-heartbeat'')])]\<rparr>) fs)
   \<and> (\<not> (\<exists>d. snd f = Text (PDict d) \<and> map_of d ''method'' = Some (PStr ''public/heartbeat'')) \<longrightarrow>
        (\<exists>evs. trace (snd (listen_step pf m f)) = trace m @ evs \<and> (\<forall>v. WsSend v \<notin> set evs)))
   \<and> sends (trace (snd (listen pf m w0 frames))) =
        sends (trace m) @
        map (\<lambda>f. heartbeat_echo (snd f))
            (filter (\<lambda>f. is_heartbeat (snd f)) (taken_by_listen pf m w0 frames))"
proof (intro conjI impI)
  assume h: "snd f = Text (PDict d) \<and> map_of d ''method'' = Some (PStr ''public/heartbeat'')"
  then show st: "listen_step pf m f =
        (None, m\<lparr>trace := trace m @
           [WsSend (PDict [(''id'', (case map_of d ''id'' of None \<Rightarrow> PNone | Some i \<Rightarrow> i)),
                           (''method'', PStr ''public/respond-heartbeat'')])]\<rparr>)"
    using listen_step_heartbeat by blast
  show "listen_loop pf m (f # fs) =
          listen_loop pf
            (m\<lparr>trace := trace m @
               [WsSend (PDict [(''id'', (case map_of d ''id'' of None \<Rightarrow> PNone | Some i \<Rightarrow> i)),
                               (''method'', PStr ''public/respond-heartbeat'')])]\<rparr>) fs"
    using st by (simp add: Let_def)
next
  assume "\<not> (\<exists>d. snd f = Text (PDict d) \<and> map_of d ''method'' = Some (PStr ''public/heartbeat''))"
  then have "\<not> is_heartbeat (snd f)" by (simp add: is_heartbeat_iff)
  then show "\<exists>evs. trace (snd (listen_step pf m f)) = trace m @ evs \<and> (\<forall>v. WsSend v \<notin> set evs)"
    using listen_step_other [of f pf m] sends_nothing_iff by metis
next
  show "sends (trace (snd (listen pf m w0 frames))) =
        sends (trace m) @
        map (\<lambda>f. heartbeat_echo (snd f))
            (filter (\<lambda>f. is_heartbeat (snd f)) (taken_by_listen pf m w0 frames))"
    by (rule listen_sends)
qed

lemma refresh_quiet:
  "refresh_sentiment quiet_world (AI_Analyzer_init True) = Inr (AI_Analyzer_init True)"
  by (simp add: refresh_sentiment_def quiet_world_def AI_Analyzer_init_def)

lemma refresh_broken: "refresh_sentiment w (AI_Analyzer_init False) = Inl AttributeError"
  by (simp add: refresh_sentiment_def AI_Analyzer_init_def)

lemma heartbeat_step_42:
  "listen_step pf m (quiet_world, Text heartbeat_msg) =
     (None, m\<lparr>trace := trace m @
        [WsSend (PDict [(''id'', PNum 42), (''method'', PStr ''public/respond-heartbeat'')])]\<rparr>)"
  using listen_step_heartbeat
          [of "(quiet_world, Text heartbeat_msg)"
              "[(''id'', PNum 42), (''method'', PStr ''public/heartbeat'')]" pf m]
  by (simp add: heartbeat_msg_def)

lemma heartbeat_step_7:
  "listen_step pf m (quiet_world, Text second_heartbeat_msg) =
     (None, m\<lparr>trace := trace m @
        [WsSend (PDict [(''id'', PNum 7), (''method'', PStr ''public/respond-heartbeat'')])]\<rparr>)"
  using listen_step_heartbeat
          [of "(quiet_world, Text second_heartbeat_msg)"
              "[(''method'', PStr ''public/heartbeat''), (''id'', PNum 7)]" pf m]
  by (simp add: second_heartbeat_msg_def)

lemma listen_demo_run:
  "listen no_float scalping_ws quiet_world demo_frames =
     (None, scalping_ws\<lparr>trace :=
        [RefreshSentiment,
         WsSend (PDict [(''id'', PNum 42), (''method'', PStr ''public/respond-heartbeat'')]),
         RefreshSentiment,
         OnTickUpdate [(''symbol'', PStr ''BTC_USDT''), (''price'', PStr ''100.5''), (''volume'', PStr ''12'')],
         OnTickUpdate [(''symbol'', PStr ''BTC_USDT''), (''price'', PNum 101), (''volume'', PNone)],
         WsSend (PDict [(''id'', PNum 7), (''method'', PStr ''public/respond-heartbeat'')])]\<rparr>)"
proof -
  let ?hb = "WsSend (PDict [(''id'', PNum 42), (''method'', PStr ''public/respond-heartbeat'')])"
  have a: "ai_analyzer scalping_ws = AI_Analyzer_init True" by (simp add: scalping_ws_def)
  have t0: "trace scalping_ws = []" by (simp add: scalping_ws_def)
  have idem: "scalping_ws\<lparr>ai_analyzer := AI_Analyzer_init True\<rparr> = scalping_ws"
    by (simp add: scalping_ws_def)
  have idem2: "\<And>t. scalping_ws\<lparr>trace := t, ai_analyzer := AI_Analyzer_init True\<rparr> = scalping_ws\<lparr>trace := t\<rparr>"
    by (simp add: scalping_ws_def)
  let ?m1 = "scalping_ws\<lparr>trace := [RefreshSentiment, ?hb, RefreshSentiment]\<rparr>"
  have rt: "route_data no_float ?m1 ticker_msg =
     (None, scalping_ws\<lparr>trace :=
        [RefreshSentiment, ?hb, RefreshSentiment,
         OnTickUpdate [(''symbol'', PStr ''BTC_USDT''), (''price'', PStr ''100.5''), (''volume'', PStr ''12'')],
         OnTickUpdate [(''symbol'', PStr ''BTC_USDT''), (''price'', PNum 101), (''volume'', PNone)]]\<rparr>)"
    by (simp add: route_data_def py_get_def dict_get_def ticker_msg_def scalping_ws_def
        ExecutionEngine_init_def on_tick_update_def Let_def emit_def with_strat_def)
  have tk: "listen_step no_float (scalping_ws\<lparr>trace := [RefreshSentiment, ?hb]\<rparr>) (quiet_world, Text ticker_msg)
     = route_data no_float ?m1 ticker_msg"
    by (simp add: listen_step_def json_loads_def py_get_def dict_get_def ticker_msg_def
          emit_def a refresh_quiet idem idem2)
  show ?thesis
    by (simp add: listen_def demo_frames_def Let_def heartbeat_step_42 heartbeat_step_7 tk rt
          emit_def a t0 refresh_quiet idem idem2)
qed

lemma listen_broken_run:
  "listen no_float broken_ws quiet_world demo_frames
     = (Some AttributeError, broken_ws\<lparr>trace := [RefreshSentiment]\<rparr>)"
  by (simp add: listen_def broken_ws_def refresh_broken emit_def scalping_ws_def)

lemma ticker_msg_no_heartbeat:
  "\<not> (\<exists>d. snd (quiet_world, Text ticker_msg) = Text (PDict d)
           \<and> map_of d ''method'' = Some (PStr ''public/heartbeat''))"
  by (auto simp: ticker_msg_def)

theorem heartbeat_answered_first_witness:
  "snd (quiet_world, Text heartbeat_msg)
     = Text (PDict [(''id'', PNum 42), (''method'', PStr ''public/heartbeat'')])
   \<and> map_of [(''id'', PNum 42), (''method'', PStr ''public/heartbeat'')] ''method''
       = Some (PStr ''public/heartbeat'')
   \<and> listen_step no_float scalping_ws (quiet_world, Text heartbeat_msg)
       = (None, scalping_ws\<lparr>trace := trace scalping_ws @
            [WsSend (PDict [(''id'', PNum 42), (''method'', PStr ''public/respond-heartbeat'')])]\<rparr>)
   \<and> listen_step no_float scalping_ws (quiet_world, Text second_heartbeat_msg)
       = (None, scalping_ws\<lparr>trace := trace scalping_ws @
            [WsSend (PDict [(''id'', PNum 7), (''method'', PStr ''public/respond-heartbeat'')])]\<rparr>)
   \<and> \<not> (\<exists>d. snd (quiet_world, Text ticker_msg) = Text (PDict d)
            \<and> map_of d ''method'' = Some (PStr ''public/heartbeat''))
   \<and> (\<exists>evs. trace (snd (listen_step no_float scalping_ws (quiet_world, Text ticker_msg)))
               = trace scalping_ws @ evs \<and> (\<forall>v. WsSend v \<notin> set evs))
   \<and> trace (snd (listen no_float scalping_ws quiet_world demo_frames)) =
        [RefreshSentiment,
         WsSend (PDict [(''id'', PNum 42), (''method'', PStr ''public/respond-heartbeat'')]),
         RefreshSentiment,
         OnTickUpdate [(''symbol'', PStr ''BTC_USDT''), (''price'', PStr ''100.5''), (''volume'', PStr ''12'')],
         OnTickUpdate [(''symbol'', PStr ''BTC_USDT''), (''price'', PNum 101), (''volume'', PNone)],
         WsSend (PDict [(''id'', PNum 7), (''method'', PStr ''public/respond-heartbeat'')])]
   \<and> sends (trace (snd (listen no_float scalping_ws quiet_world demo_frames))) =
        [PDict [(''id'', PNum 42), (''method'', PStr ''public/respond-heartbeat'')],
         PDict [(''id'', PNum 7), (''method'', PStr ''public/respond-heartbeat'')]]
   \<and> listen no_float broken_ws quiet_world demo_frames
       = (Some AttributeError, broken_ws\<lparr>trace := [RefreshSentiment]\<rparr>)"
proof -
  have m1: "snd (quiet_world, Text heartbeat_msg)
     = Text (PDict [(''id'', PNum 42), (''method'', PStr ''public/heartbeat'')])"
    by (simp add: heartbeat_msg_def)
  have m2: "map_of [(''id'', PNum 42), (''method'', PStr ''public/heartbeat'')] ''method''
       = Some (PStr ''public/heartbeat'')"
    by simp
  have s1: "listen_step no_float scalping_ws (quiet_world, Text heartbeat_msg)
       = (None, scalping_ws\<lparr>trace := trace scalping_ws @
            [WsSend (PDict [(''id'', PNum 42), (''method'', PStr ''public/respond-heartbeat'')])]\<rparr>)"
    using heartbeat_answered_first
            [of "(quiet_world, Text heartbeat_msg)"
                "[(''id'', PNum 42), (''method'', PStr ''public/heartbeat'')]"
                no_float scalping_ws "[]" quiet_world demo_frames]
          m1
    by simp
  have s2: "listen_step no_float scalping_ws (quiet_world, Text second_heartbeat_msg)
       = (None, scalping_ws\<lparr>trace := trace scalping_ws @
            [WsSend (PDict [(''id'', PNum 7), (''method'', PStr ''public/respond-heartbeat'')])]\<rparr>)"
    by (rule heartbeat_step_7)
  have n: "\<not> (\<exists>d. snd (quiet_world, Text ticker_msg) = Text (PDict d)
            \<and> map_of d ''method'' = Some (PStr ''public/heartbeat''))"
    by (rule ticker_msg_no_heartbeat)
  have o: "\<exists>evs. trace (snd (listen_step no_float scalping_ws (quiet_world, Text ticker_msg)))
               = trace scalping_ws @ evs \<and> (\<forall>v. WsSend v \<notin> set evs)"
    using heartbeat_answered_first
            [of "(quiet_world, Text ticker_msg)" "[]" no_float scalping_ws "[]" quiet_world demo_frames]
          n
    by blast
  have t: "trace (snd (listen no_float scalping_ws quiet_world demo_frames)) =
        [RefreshSentiment,
         WsSend (PDict [(''id'', PNum 42), (''method'', PStr ''public/respond-heartbeat'')]),
         RefreshSentiment,
         OnTickUpdate [(''symbol'', PStr ''BTC_USDT''), (''price'', PStr ''100.5''), (''volume'', PStr ''12'')],
         OnTickUpdate [(''symbol'', PStr ''BTC_USDT''), (''price'', PNum 101), (''volume'', PNone)],
         WsSend (PDict [(''id'', PNum 7), (''method'', PStr ''public/respond-heartbeat'')])]"
    by (simp add: listen_demo_run)
  have ss: "sends (trace (snd (listen no_float scalping_ws quiet_world demo_frames))) =
        [PDict [(''id'', PNum 42), (''method'', PStr ''public/respond-heartbeat'')],
         PDict [(''id'', PNum 7), (''method'', PStr ''public/respond-heartbeat'')]]"
    by (simp add: t)
  have b: "listen no_float broken_ws quiet_world demo_frames
       = (Some AttributeError, broken_ws\<lparr>trace := [RefreshSentiment]\<rparr>)"
    by (rule listen_broken_run)
  show ?thesis
    by (intro conjI) (fact m1 m2 s1 s2 n o t ss b)+
qed

end
